theory Spec2Isabelle
  imports Main "HOL-Library.Sublist" "HOL-Library.AList"
begin

section \<open>Python strings, values and exceptions\<close>

text \<open>
  A Python \<open>str\<close> is a sequence of Unicode code points, so it is modelled as a list of
  code points (natural numbers below \<open>0x110000\<close>); \<open>len\<close>, \<open>in\<close> and \<open>replace\<close>
  count code points. The markers of \<open>app.py\<close> are \<open>U+2705\<close> (white heavy check mark)
  and \<open>U+274C\<close> (cross mark).
\<close>

type_synonym pystr = "nat list"

definition ascii :: "string \<Rightarrow> pystr" where
  "ascii s = map of_char s"

definition ln :: "string \<Rightarrow> pystr" where
  \<comment> \<open>one line of a multi-line literal, with its newline\<close>
  "ln s = ascii s @ [10]"

definition quoted :: "pystr \<Rightarrow> pystr" where
  \<comment> \<open>\<open>repr\<close> of a string that needs no escaping: the text between apostrophes\<close>
  "quoted s = [39] @ s @ [39]"

text \<open>
  The values that reach the functions of \<open>app.py\<close>: a string (a text input, a CSV cell),
  \<open>None\<close> (a default argument), and the float \<open>nan\<close> that pandas puts in an empty CSV
  cell. No arithmetic is done on the float; only its truth value and its \<open>str\<close> matter.
\<close>

datatype pyval = PyNone | PyStr pystr | PyNaN

fun truthy :: "pyval \<Rightarrow> bool" where
  "truthy PyNone = False"
| "truthy (PyStr s) = (s \<noteq> [])"
| "truthy PyNaN = True"

definition py_or :: "pyval \<Rightarrow> pyval \<Rightarrow> pyval" where
  \<comment> \<open>\<open>a or b\<close>\<close>
  "py_or a b = (if truthy a then a else b)"

fun py_format :: "pyval \<Rightarrow> pystr" where
  \<comment> \<open>what an f-string puts for \<open>{v}\<close>\<close>
  "py_format PyNone = ascii ''None''"
| "py_format (PyStr s) = s"
| "py_format PyNaN = ascii ''nan''"

datatype exn_class =
    KeyError | AttributeError | TypeError | ValueError | UnicodeEncodeError
  | OSError | FileNotFoundError | JSONDecodeError | SMTPException
  | KeyboardInterrupt | SystemExit

text \<open>An exception is its class and the text \<open>str(e)\<close> gives.\<close>

datatype exn = Exn exn_class pystr

fun exn_class_of :: "exn \<Rightarrow> exn_class" where
  "exn_class_of (Exn c m) = c"

fun exn_str :: "exn \<Rightarrow> pystr" where
  "exn_str (Exn c m) = m"

definition is_Exception :: "exn \<Rightarrow> bool" where
  \<comment> \<open>caught by \<open>except Exception\<close>: every class but the two that derive from
      \<open>BaseException\<close> only\<close>
  "is_Exception e = (exn_class_of e \<noteq> KeyboardInterrupt \<and> exn_class_of e \<noteq> SystemExit)"

subsection \<open>String operations used by the source\<close>

fun py_in :: "pystr \<Rightarrow> pystr \<Rightarrow> bool" where
  \<comment> \<open>\<open>sub in s\<close>\<close>
  "py_in sub [] = (sub = [])"
| "py_in sub (c # s) = (prefix sub (c # s) \<or> py_in sub s)"

function py_replace :: "pystr \<Rightarrow> pystr \<Rightarrow> pystr \<Rightarrow> pystr" where
  \<comment> \<open>\<open>s.replace(old, new)\<close>: one pass from the left over non-overlapping occurrences\<close>
  "py_replace [] old new = (if old = [] then new else [])"
| "py_replace (c # s) old new =
     (if old = [] then new @ c # py_replace s old new
      else if prefix old (c # s) then new @ py_replace (drop (length old) (c # s)) old new
      else c # py_replace s old new)"
  by pat_completeness auto
termination
  by (relation "measure (\<lambda>(s, old, new). length s)") auto

fun str_replace :: "pyval \<Rightarrow> pystr \<Rightarrow> pyval \<Rightarrow> exn + pystr" where
  \<comment> \<open>\<open>v.replace(old, new)\<close> on a value: the attribute is looked up first, then the
      argument is checked\<close>
  "str_replace PyNone old new =
     Inl (Exn AttributeError
       (quoted (ascii ''NoneType'') @ ascii '' object has no attribute '' @ quoted (ascii ''replace'')))"
| "str_replace PyNaN old new =
     Inl (Exn AttributeError
       (quoted (ascii ''float'') @ ascii '' object has no attribute '' @ quoted (ascii ''replace'')))"
| "str_replace (PyStr s) old (PyStr new) = Inr (py_replace s old new)"
| "str_replace (PyStr s) old PyNone =
     Inl (Exn TypeError (ascii ''replace() argument 2 must be str, not NoneType''))"
| "str_replace (PyStr s) old PyNaN =
     Inl (Exn TypeError (ascii ''replace() argument 2 must be str, not float''))"

subsection \<open>\<open>urllib.parse.quote(s, safe="")\<close>\<close>

text \<open>
  The library function, as documented: the string is encoded as UTF-8 (strict, so a
  surrogate raises \<open>UnicodeEncodeError\<close>, whose text names the character and its position,
  or the positions of a run of surrogates), and every byte other than the letters, the
  digits and \<open>_ . - ~\<close> is written \<open>%XX\<close> with upper-case hexadecimal digits. A number
  that is no code point cannot occur in a Python string; the model rejects it.
\<close>

definition hexlow :: "nat \<Rightarrow> nat" where
  \<comment> \<open>a lower-case hexadecimal digit\<close>
  "hexlow d = (if d < 10 then 48 + d else 87 + d)"

definition hex4 :: "nat \<Rightarrow> pystr" where
  \<comment> \<open>\<open>'{:04x}'.format(n)\<close>\<close>
  "hex4 n = [hexlow (n div 4096 mod 16), hexlow (n div 256 mod 16), hexlow (n div 16 mod 16),
             hexlow (n mod 16)]"

function show_nat :: "nat \<Rightarrow> pystr" where
  \<comment> \<open>\<open>str(n)\<close> for a number that is not negative\<close>
  "show_nat n = (if n < 10 then [48 + n] else show_nat (n div 10) @ [48 + n mod 10])"
  by pat_completeness auto
termination
  by (relation "measure id") auto

declare show_nat.simps [simp del]

definition is_surrogate :: "nat \<Rightarrow> bool" where
  "is_surrogate c = (0xD800 \<le> c \<and> c < 0xE000)"

definition surrogate_error :: "nat \<Rightarrow> pystr \<Rightarrow> exn" where
  \<comment> \<open>the error for the run of surrogates that starts the text \<open>s\<close>, at position \<open>i\<close>\<close>
  "surrogate_error i s =
     (let run = length (takeWhile is_surrogate s) in
      Exn UnicodeEncodeError
        (quoted (ascii ''utf-8'') @ ascii '' codec can'' @ [39]
         @ (if run = 1 then
              ascii ''t encode character '' @ quoted (92 # 117 # hex4 (hd s))
              @ ascii '' in position '' @ show_nat i
            else
              ascii ''t encode characters in position '' @ show_nat i @ [45]
              @ show_nat (i + run - 1))
         @ ascii '': surrogates not allowed''))"

definition utf8_char :: "nat \<Rightarrow> nat list" where
  "utf8_char c =
     (if c < 0x80 then [c]
      else if c < 0x800 then [0xC0 + c div 64, 0x80 + c mod 64]
      else if c < 0x10000 then
        [0xE0 + c div 4096, 0x80 + (c div 64) mod 64, 0x80 + c mod 64]
      else
        [0xF0 + c div 262144, 0x80 + (c div 4096) mod 64,
         0x80 + (c div 64) mod 64, 0x80 + c mod 64])"

fun utf8_from :: "nat \<Rightarrow> pystr \<Rightarrow> exn + nat list" where
  \<comment> \<open>the bytes of the text that starts at position \<open>i\<close> of the string\<close>
  "utf8_from i [] = Inr []"
| "utf8_from i (c # s) =
     (if is_surrogate c then Inl (surrogate_error i (c # s))
      else if 0x110000 \<le> c then Inl (Exn ValueError (ascii ''not a code point''))
      else (case utf8_from (Suc i) s of
              Inl e \<Rightarrow> Inl e
            | Inr rest \<Rightarrow> Inr (utf8_char c @ rest)))"

definition utf8_encode :: "pystr \<Rightarrow> exn + nat list" where
  "utf8_encode s = utf8_from 0 s"

definition always_safe :: "nat \<Rightarrow> bool" where
  \<comment> \<open>\<open>A-Z a-z 0-9 _ . - ~\<close>\<close>
  "always_safe b =
     ((65 \<le> b \<and> b \<le> 90) \<or> (97 \<le> b \<and> b \<le> 122) \<or> (48 \<le> b \<and> b \<le> 57)
      \<or> b = 95 \<or> b = 46 \<or> b = 45 \<or> b = 126)"

definition hexdigit :: "nat \<Rightarrow> nat" where
  "hexdigit d = (if d < 10 then 48 + d else 55 + d)"

definition quote_byte :: "nat \<Rightarrow> pystr" where
  "quote_byte b =
     (if always_safe b then [b] else [37, hexdigit ((b div 16) mod 16), hexdigit (b mod 16)])"

definition quote :: "pystr \<Rightarrow> exn + pystr" where
  "quote s = (case utf8_encode s of Inl e \<Rightarrow> Inl e | Inr bs \<Rightarrow> Inr (concat (map quote_byte bs)))"

fun py_quote :: "pyval \<Rightarrow> exn + pystr" where
  \<comment> \<open>\<open>quote\<close> on a value: anything but \<open>str\<close> (or bytes) is a \<open>TypeError\<close>\<close>
  "py_quote (PyStr s) = quote s"
| "py_quote v = Inl (Exn TypeError (ascii ''quote_from_bytes() expected bytes''))"

section \<open>The e-mail generator: \<open>generate_email_html\<close>\<close>

definition name_placeholder :: pystr where
  "name_placeholder = ascii ''{name}''"

definition tracking_link :: "pyval \<Rightarrow> pystr \<Rightarrow> pystr \<Rightarrow> pystr" where
  "tracking_link email_for_tracking encoded_cta_url encoded_subject =
     ascii ''https://tracking-enfw.onrender.com/track/click''
     @ ascii ''?email='' @ py_format email_for_tracking
     @ ascii ''&url='' @ encoded_cta_url
     @ ascii ''&subject='' @ encoded_subject"

definition open_tracking_url :: "pyval \<Rightarrow> pystr \<Rightarrow> pystr" where
  \<comment> \<open>the \<open>src\<close> of the tracking pixel\<close>
  "open_tracking_url email_for_tracking encoded_subject =
     ascii ''https://tracking-enfw.onrender.com/track/open''
     @ ascii ''?email='' @ py_format email_for_tracking
     @ ascii ''&subject='' @ encoded_subject"

definition tracking_pixel :: "pyval \<Rightarrow> pystr \<Rightarrow> pystr" where
  \<open>tracking_pixel email_for_tracking encoded_subject =
     ascii ''<img src="'' @ open_tracking_url email_for_tracking encoded_subject
     @ ascii ''" ''
     @ ascii ''width="1" height="1" style="display:block;" />''\<close>

definition unsubscribe_link :: "pyval \<Rightarrow> pystr" where
  "unsubscribe_link email_for_tracking =
     ascii ''https://unsubscribe-uofn.onrender.com/unsubscribe?email=''
     @ py_format email_for_tracking"

text \<open>The fixed text of the returned f-string, cut at its five fields.\<close>

definition html_part_open :: pystr where
  \<open>html_part_open = concat
    [ln '''',
     ln ''    <html>'',
     ln ''    <body style="margin:0;padding:0;background:#f9f9f9;font-family:Arial;">'',
     ascii ''    '']\<close>

definition html_part_body :: pystr where
  \<open>html_part_body = concat
    [ln '''',
     ln '''',
     ln ''    <table width="100%" cellpadding="0" cellspacing="0">'',
     ln ''      <tr>'',
     ln ''        <td align="center" style="padding:30px">'',
     ln ''          <table width="100%" style="max-width:700px;background:#fff;'',
     ln ''            border-radius:10px;box-shadow:0 4px 14px rgba(0,0,0,.07)">'',
     ln ''            <tr>'',
     ln ''              <td style="padding:30px">'',
     ln '''',
     ascii ''                '']\<close>

definition html_part_cta :: pystr where
  \<open>html_part_cta = concat
    [ln '''',
     ln '''',
     ln ''                <!-- CTA -->'',
     ln ''                <table align="center" style="margin-top:30px">'',
     ln ''                  <tr>'',
     ln ''                    <td bgcolor="#D7262F" style="border-radius:6px">'',
     ascii ''                      <a href="'']\<close>

definition html_part_label :: pystr where
  \<open>html_part_label = concat
    [ln ''" target="_blank"'',
     ln ''                        style="display:inline-block;padding:16px 28px;'',
     ln ''                        font-size:15px;color:#fff;text-decoration:none;'',
     ln ''                        font-weight:bold;border-radius:6px;">'',
     ascii ''                        '']\<close>

definition html_part_signature :: pystr where
  \<open>html_part_signature = concat
    [ln '''',
     ln ''                      </a>'',
     ln ''                    </td>'',
     ln ''                  </tr>'',
     ln ''                </table>'',
     ln '''',
     ln ''                <!-- Signature -->'',
     ln ''                <p style="margin-top:25px;font-weight:bold">'',
     ln ''                  Andrew<br/>'',
     ln ''                  Sales Director<br/>'',
     ascii ''                  3'',
     [0x2013],
     ascii ''4 March 2026 | London Olympia<br/>'',
     [10],
     ln ''                  <a href="mailto:andrew@corporatewellbeingexpo.com"'',
     ln ''                     style="color:#D7262F">andrew@corporatewellbeingexpo.com</a><br/>'',
     ln ''                  (+44) 2034517166'',
     ln ''                </p>'',
     ln '''',
     ln ''                <p style="font-size:11px;color:#888;text-align:center;margin-top:30px">'',
     ln ''                  Not interested?'',
     ascii ''                  <a href="'']\<close>

definition html_part_close :: pystr where
  \<open>html_part_close = concat
    [ln ''" style="color:#D7262F">Unsubscribe</a>'',
     ln ''                </p>'',
     ln '''',
     ln ''              </td>'',
     ln ''            </tr>'',
     ln ''          </table>'',
     ln ''        </td>'',
     ln ''      </tr>'',
     ln ''    </table>'',
     ln ''    </body>'',
     ln ''    </html>'',
     ascii ''    '']\<close>

definition html_document :: "pystr \<Rightarrow> pystr \<Rightarrow> pystr \<Rightarrow> pystr \<Rightarrow> pystr \<Rightarrow> pystr" where
  "html_document pixel custom_html_rendered link cta_text unsubscribe =
     html_part_open @ pixel
     @ html_part_body @ custom_html_rendered
     @ html_part_cta @ link
     @ html_part_label @ cta_text
     @ html_part_signature @ unsubscribe
     @ html_part_close"

definition generate_email_html ::
  "pyval \<Rightarrow> pyval \<Rightarrow> pyval \<Rightarrow> pyval \<Rightarrow> pyval \<Rightarrow> pyval \<Rightarrow> exn + pystr" where
  "generate_email_html full_name recipient_email subject custom_html cta_text cta_url =
     (let email_for_tracking = py_or recipient_email (PyStr (ascii ''unknown@example.com''))
      in case py_quote (py_or subject (PyStr (ascii ''No Subject''))) of
           Inl e \<Rightarrow> Inl e
         | Inr encoded_subject \<Rightarrow>
      (case py_quote cta_url of
           Inl e \<Rightarrow> Inl e
         | Inr encoded_cta_url \<Rightarrow>
      (case str_replace custom_html name_placeholder (py_or full_name (PyStr [])) of
           Inl e \<Rightarrow> Inl e
         | Inr custom_html_rendered \<Rightarrow>
             Inr (html_document
                    (tracking_pixel email_for_tracking encoded_subject)
                    custom_html_rendered
                    (tracking_link email_for_tracking encoded_cta_url encoded_subject)
                    (py_format cta_text)
                    (unsubscribe_link email_for_tracking)))))"

section \<open>The send channel: \<open>send_email\<close>\<close>

text \<open>
  The calls into \<open>smtplib\<close> and \<open>email.message\<close> are the environment of one attempt:
  each either returns or raises, as the \<open>transport\<close> says (\<open>None\<close>: the call returns).
  What a call did on the wire is recorded as an event when it returns, so the events of an
  attempt say whether a connection was opened, a message handed over, and the connection
  released by \<open>quit\<close>. The calls are taken to return or raise: a call that blocks for
  ever is outside the model.
\<close>

record email_message =
  msg_from :: pyval
  msg_to :: pyval
  msg_subject :: pyval
  msg_content :: pystr

datatype smtp_event = Connected | TlsStarted | LoggedIn | MessageSent email_message | Quit

record transport =
  smtp_connect :: "exn option"
  smtp_starttls :: "exn option"
  smtp_login :: "pyval \<Rightarrow> pyval \<Rightarrow> exn option"
  set_header :: "pystr \<Rightarrow> pyval \<Rightarrow> exn option"
  set_content :: "pystr \<Rightarrow> exn option"
  smtp_send_message :: "email_message \<Rightarrow> exn option"
  smtp_quit :: "exn option"

type_synonym 'a io = "(exn + 'a) \<times> smtp_event list"

definition io_pure :: "exn + 'a \<Rightarrow> 'a io" where
  "io_pure r = (r, [])"

definition io_call :: "exn option \<Rightarrow> smtp_event list \<Rightarrow> unit io" where
  "io_call r evs = (case r of Some e \<Rightarrow> (Inl e, []) | None \<Rightarrow> (Inr (), evs))"

definition io_bind :: "'a io \<Rightarrow> ('a \<Rightarrow> 'b io) \<Rightarrow> 'b io" where
  "io_bind m f =
     (case m of
        (Inl e, t) \<Rightarrow> (Inl e, t)
      | (Inr x, t) \<Rightarrow> (case f x of (r, t') \<Rightarrow> (r, t @ t')))"

text \<open>A row of the data frame: its cells by column label; \<open>row[k]\<close> raises \<open>KeyError\<close>.\<close>

type_synonym row = "(pystr \<times> pyval) list"

definition row_get :: "row \<Rightarrow> pystr \<Rightarrow> exn + pyval" where
  "row_get r k = (case map_of r k of None \<Rightarrow> Inl (Exn KeyError (quoted k)) | Some v \<Rightarrow> Inr v)"

definition delivered_text :: pystr where
  "delivered_text = [0x2705] @ ascii '' Delivered''"

definition failed_text :: "exn \<Rightarrow> pystr" where
  "failed_text e = [0x274C] @ ascii '' Failed: '' @ exn_str e"

definition send_email_try ::
  "transport \<Rightarrow> pyval \<Rightarrow> pyval \<Rightarrow> row \<Rightarrow> pyval \<Rightarrow> pyval \<Rightarrow> pyval \<Rightarrow> pyval \<Rightarrow> (pyval \<times> pystr) io" where
  \<comment> \<open>the body of the \<open>try\<close>\<close>
  "send_email_try net sender_email sender_password r subject custom_html cta_text cta_url =
     io_bind (io_call (smtp_connect net) [Connected]) (\<lambda>_.
     io_bind (io_call (smtp_starttls net) [TlsStarted]) (\<lambda>_.
     io_bind (io_call (smtp_login net sender_email sender_password) [LoggedIn]) (\<lambda>_.
     io_bind (io_call (set_header net (ascii ''From'') sender_email) []) (\<lambda>_.
     io_bind (io_pure (row_get r (ascii ''email''))) (\<lambda>to.
     io_bind (io_call (set_header net (ascii ''To'') to) []) (\<lambda>_.
     io_bind (io_call (set_header net (ascii ''Subject'') subject) []) (\<lambda>_.
     io_bind (io_pure (row_get r (ascii ''full_name''))) (\<lambda>full_name.
     io_bind (io_pure (row_get r (ascii ''email''))) (\<lambda>recipient_email.
     io_bind (io_pure (generate_email_html full_name recipient_email subject
                         custom_html cta_text cta_url)) (\<lambda>html.
     io_bind (io_call (set_content net html) []) (\<lambda>_.
     let msg = \<lparr>msg_from = sender_email, msg_to = to, msg_subject = subject,
                msg_content = html\<rparr> in
     io_bind (io_call (smtp_send_message net msg) [MessageSent msg]) (\<lambda>_.
     io_bind (io_call (smtp_quit net) [Quit]) (\<lambda>_.
     io_bind (io_pure (row_get r (ascii ''email''))) (\<lambda>email.
     io_pure (Inr (email, delivered_text))))))))))))))))"

definition send_email ::
  "transport \<Rightarrow> pyval \<Rightarrow> pyval \<Rightarrow> row \<Rightarrow> pyval \<Rightarrow> pyval \<Rightarrow> pyval \<Rightarrow> pyval \<Rightarrow> (pyval \<times> pystr) io" where
  "send_email net sender_email sender_password r subject custom_html cta_text cta_url =
     (case send_email_try net sender_email sender_password r subject custom_html cta_text cta_url of
        (Inr res, t) \<Rightarrow> (Inr res, t)
      | (Inl e, t) \<Rightarrow>
          if is_Exception e then
            (case row_get r (ascii ''email'') of
               Inl e' \<Rightarrow> (Inl e', t)
             | Inr email \<Rightarrow> (Inr (email, failed_text e), t))
          else (Inl e, t))"

section \<open>The campaign run: the \<open>Start Campaign\<close> block\<close>

text \<open>
  \<open>pd.read_csv\<close>, \<open>str.lower\<close> and \<open>str.strip\<close> are library functions: the result
  of reading the uploaded file is an input of the run, the two string functions are fields
  of the library record below. A data frame has one cell per column in every row.
  The progress bar and the final metrics are display only and are not modelled; the two
  counters are the outcome of the run.
\<close>

record dataframe =
  columns :: "pystr list"
  cells :: "pyval list list"

text \<open>
  The values \<open>json.dump\<close> accepts, floats left out: \<open>None\<close>, booleans, integers,
  strings, lists, tuples, and dictionaries with string keys in the order of insertion.
\<close>

datatype json =
    JNull | JBool bool | JInt int | JStr pystr | JList "json list" | JTuple "json list"
  | JDict "(pystr \<times> json) list"

record pylib =
  str_lower :: "pystr \<Rightarrow> pystr"
  str_strip :: "pystr \<Rightarrow> pystr"
  open_write :: "pystr \<Rightarrow> exn option"
  open_read :: "pystr \<Rightarrow> exn option"
  json_dumps :: "json \<Rightarrow> exn + pystr"
  json_written :: "json \<Rightarrow> pystr"
  json_loads :: "pystr \<Rightarrow> exn + json"

definition rename_column :: "pystr \<Rightarrow> pystr" where
  "rename_column c = (if c = ascii ''full name'' then ascii ''full_name'' else c)"

definition normalise_columns :: "pylib \<Rightarrow> dataframe \<Rightarrow> dataframe" where
  "normalise_columns lib df =
     df\<lparr>columns := map (\<lambda>c. rename_column (str_strip lib (str_lower lib c))) (columns df)\<rparr>"

definition iterrows :: "dataframe \<Rightarrow> row list" where
  "iterrows df = map (\<lambda>cs. zip (columns df) cs) (cells df)"

text \<open>
  The files of the working directory, by path. The run block has the file system at hand
  as every part of the script does; it is passed in and handed back.
\<close>

type_synonym fs = "pystr \<rightharpoonup> pystr"

fun aggregate :: "(exn + pyval \<times> pystr) list \<Rightarrow> int \<times> int \<Rightarrow> exn + int \<times> int" where
  \<comment> \<open>the loop over the futures: \<open>future.result()\<close> raises what the call raised\<close>
  "aggregate [] (delivered, failed) = Inr (delivered, failed)"
| "aggregate (Inl e # futures) (delivered, failed) = Inl e"
| "aggregate (Inr (_, result) # futures) (delivered, failed) =
     aggregate futures
       (delivered + of_bool (py_in [0x2705] result), failed + of_bool (py_in [0x274C] result))"

record campaign_run =
  attempts :: "(row \<times> smtp_event list) list"
  outcome :: "exn + int \<times> int"

definition submit_all ::
  "(nat \<Rightarrow> transport) \<Rightarrow> pyval \<Rightarrow> pyval \<Rightarrow> row list \<Rightarrow> pyval \<Rightarrow> pyval \<Rightarrow> pyval \<Rightarrow> pyval
     \<Rightarrow> (pyval \<times> pystr) io list" where
  \<comment> \<open>one submitted call per row; the pool runs every one of them to its end\<close>
  "submit_all net sender_email sender_password rows subject custom_html cta_text cta_url =
     map (\<lambda>(i, r). send_email (net i) sender_email sender_password r subject custom_html
                      cta_text cta_url)
         (enumerate 0 rows)"

definition start_campaign ::
  "pylib \<Rightarrow> (nat \<Rightarrow> transport) \<Rightarrow> fs \<Rightarrow> exn + dataframe \<Rightarrow> pyval \<Rightarrow> pyval \<Rightarrow> pyval \<Rightarrow> pyval
     \<Rightarrow> pyval \<Rightarrow> pyval \<Rightarrow> fs \<times> campaign_run" where
  "start_campaign lib net files csv sender_email sender_password subject custom_html cta_text cta_url =
     (case csv of
        Inl e \<Rightarrow> (files, \<lparr>attempts = [], outcome = Inl e\<rparr>)
      | Inr df0 \<Rightarrow>
          (let df = normalise_columns lib df0;
               rows = iterrows df;
               futures = submit_all net sender_email sender_password rows subject custom_html
                           cta_text cta_url
           in (files, \<lparr>attempts = zip rows (map snd futures),
                       outcome = aggregate (map fst futures) (0, 0)\<rparr>)))"

section \<open>The resume helpers\<close>

text \<open>
  \<open>open\<close>, \<open>json.dump\<close> and \<open>json.load\<close> are library calls, fields of \<open>pylib\<close>:
  whether a path can be opened for writing or for reading, the text \<open>json.dump\<close> writes
  for a document (or the exception it raises, with the text it had written by then), and
  the document \<open>json.load\<close> reads from a text (or the exception it raises).
  Python's \<open>None\<close> is \<open>JNull\<close>.
\<close>

definition resume_path :: "pyval \<Rightarrow> pystr" where
  "resume_path timestamp = ascii ''campaign_resume/'' @ py_format timestamp @ ascii ''.json''"

definition checkpoint :: "json \<Rightarrow> json \<Rightarrow> json" where
  "checkpoint data last_sent_index =
     JDict [(ascii ''data'', data), (ascii ''last_sent_index'', last_sent_index)]"

definition save_resume_point :: "pylib \<Rightarrow> fs \<Rightarrow> pyval \<Rightarrow> json \<Rightarrow> json \<Rightarrow> (exn + unit) \<times> fs" where
  "save_resume_point lib files timestamp data last_sent_index =
     (let path = resume_path timestamp in
      case open_write lib path of
        Some e \<Rightarrow> (Inl e, files)
      | None \<Rightarrow>
          (case json_dumps lib (checkpoint data last_sent_index) of
             Inl e \<Rightarrow> (Inl e, files(path \<mapsto> json_written lib (checkpoint data last_sent_index)))
           | Inr text \<Rightarrow> (Inr (), files(path \<mapsto> text))))"

definition load_resume_try :: "pylib \<Rightarrow> fs \<Rightarrow> pyval \<Rightarrow> exn + json" where
  \<comment> \<open>the body of the \<open>try\<close>\<close>
  "load_resume_try lib files timestamp =
     (let path = resume_path timestamp in
      case files path of
        None \<Rightarrow> Inl (Exn FileNotFoundError
                       (ascii ''[Errno 2] No such file or directory: '' @ quoted path))
      | Some text \<Rightarrow>
          (case open_read lib path of
             Some e \<Rightarrow> Inl e
           | None \<Rightarrow> json_loads lib text))"

definition load_resume_point :: "pylib \<Rightarrow> fs \<Rightarrow> pyval \<Rightarrow> exn + json" where
  \<comment> \<open>the bare \<open>except\<close> catches every exception and returns \<open>None\<close>\<close>
  "load_resume_point lib files timestamp =
     (case load_resume_try lib files timestamp of
        Inr doc \<Rightarrow> Inr doc
      | Inl e \<Rightarrow> Inr JNull)"

section \<open>\<open>json.dump\<close> and \<open>json.load\<close> as documented\<close>

text \<open>
  The text the library writes with its default settings: \<open>null\<close>, \<open>true\<close>, \<open>false\<close>,
  integers in decimal, strings between double quotes with the double quote, the backslash,
  the control characters and everything outside ASCII escaped (four hexadecimal digits
  after a backslash and \<open>u\<close>, a surrogate pair above \<open>U+FFFF\<close>), lists and tuples
  alike as \<open>[a, b]\<close>, dictionaries as \<open>{"k": v}\<close>.
  And the value the library reads from a text: white space is skipped between the tokens,
  an escaped pair of surrogates is one character, a key given twice keeps its last
  value, and nothing but white space may follow the value. A number with a fraction or an
  exponent, \<open>NaN\<close> and \<open>Infinity\<close> are floats, which the value type leaves out: the
  model gives no value for them. The scanner takes a bound on its depth, which
  \<open>json_parse\<close> sets from the length of the text.
\<close>

definition show_int :: "int \<Rightarrow> pystr" where
  "show_int i = (if i < 0 then 45 # show_nat (nat (- i)) else show_nat (nat i))"

definition json_escape_char :: "nat \<Rightarrow> pystr" where
  "json_escape_char c =
     (if c = 34 then [92, 34]
      else if c = 92 then [92, 92]
      else if c = 10 then [92, 110]
      else if c = 13 then [92, 114]
      else if c = 9 then [92, 116]
      else if c = 8 then [92, 98]
      else if c = 12 then [92, 102]
      else if 32 \<le> c \<and> c \<le> 126 then [c]
      else if c < 0x10000 then [92, 117] @ hex4 c
      else [92, 117] @ hex4 (0xD800 + (c - 0x10000) div 1024)
           @ [92, 117] @ hex4 (0xDC00 + (c - 0x10000) mod 1024))"

definition json_string :: "pystr \<Rightarrow> pystr" where
  "json_string s = 34 # concat (map json_escape_char s) @ [34]"

fun json_text :: "json \<Rightarrow> pystr"
  and json_items :: "json list \<Rightarrow> pystr"
  and json_members :: "(pystr \<times> json) list \<Rightarrow> pystr" where
  "json_text JNull = ascii ''null''"
| "json_text (JBool b) = (if b then ascii ''true'' else ascii ''false'')"
| "json_text (JInt i) = show_int i"
| "json_text (JStr s) = json_string s"
| "json_text (JList xs) = 91 # json_items xs @ [93]"
| "json_text (JTuple xs) = 91 # json_items xs @ [93]"
| "json_text (JDict kvs) = 123 # json_members kvs @ [125]"
| "json_items [] = []"
| "json_items [x] = json_text x"
| "json_items (x # y # xs) = json_text x @ [44, 32] @ json_items (y # xs)"
| "json_members [] = []"
| "json_members [(k, v)] = json_string k @ [58, 32] @ json_text v"
| "json_members ((k, v) # kv # kvs) =
     json_string k @ [58, 32] @ json_text v @ [44, 32] @ json_members (kv # kvs)"

definition is_ws :: "nat \<Rightarrow> bool" where
  "is_ws c = (c = 32 \<or> c = 9 \<or> c = 10 \<or> c = 13)"

definition skip_ws :: "pystr \<Rightarrow> pystr" where
  "skip_ws s = dropWhile is_ws s"

definition is_digit :: "nat \<Rightarrow> bool" where
  "is_digit c = (48 \<le> c \<and> c \<le> 57)"

definition hex_value :: "nat \<Rightarrow> nat option" where
  "hex_value c =
     (if 48 \<le> c \<and> c \<le> 57 then Some (c - 48)
      else if 97 \<le> c \<and> c \<le> 102 then Some (c - 87)
      else if 65 \<le> c \<and> c \<le> 70 then Some (c - 55)
      else None)"

definition read_hex4 :: "pystr \<Rightarrow> nat option" where
  "read_hex4 s =
     (case map hex_value (take 4 s) of
        [Some a, Some b, Some c, Some d] \<Rightarrow> Some (((a * 16 + b) * 16 + c) * 16 + d)
      | _ \<Rightarrow> None)"

definition unescape :: "nat \<Rightarrow> nat option" where
  "unescape e =
     (if e = 34 then Some 34 else if e = 92 then Some 92 else if e = 47 then Some 47
      else if e = 98 then Some 8 else if e = 102 then Some 12 else if e = 110 then Some 10
      else if e = 114 then Some 13 else if e = 116 then Some 9 else None)"

definition cons_char :: "nat \<Rightarrow> (pystr \<times> pystr) option \<Rightarrow> (pystr \<times> pystr) option" where
  "cons_char c r = (case r of None \<Rightarrow> None | Some (t, rest) \<Rightarrow> Some (c # t, rest))"

function scan_string :: "pystr \<Rightarrow> (pystr \<times> pystr) option" where
  "scan_string [] = None"
| "scan_string (c # s) =
     (if c = 34 then Some ([], s)
      else if c = 92 then
        (case s of
           [] \<Rightarrow> None
         | e # s' \<Rightarrow>
             if e = 117 then
               (case read_hex4 s' of
                  None \<Rightarrow> None
                | Some u \<Rightarrow>
                    if 0xD800 \<le> u \<and> u \<le> 0xDBFF \<and> prefix [92, 117] (drop 4 s') then
                      (case read_hex4 (drop 6 s') of
                         None \<Rightarrow> None
                       | Some u2 \<Rightarrow>
                           if 0xDC00 \<le> u2 \<and> u2 \<le> 0xDFFF then
                             cons_char (0x10000 + (u - 0xD800) * 1024 + (u2 - 0xDC00))
                               (scan_string (drop 10 s'))
                           else cons_char u (scan_string (drop 4 s')))
                    else cons_char u (scan_string (drop 4 s')))
             else
               (case unescape e of
                  None \<Rightarrow> None
                | Some d \<Rightarrow> cons_char d (scan_string s')))
      else if c < 32 then None
      else cons_char c (scan_string s))"
  by pat_completeness auto
termination
  by (relation "measure length") auto

definition read_nat :: "pystr \<Rightarrow> nat" where
  "read_nat ds = foldl (\<lambda>a d. 10 * a + (d - 48)) 0 ds"

definition float_tail :: "pystr \<Rightarrow> bool" where
  \<comment> \<open>a fraction or an exponent follows: the number is a float\<close>
  "float_tail s =
     (case s of
        [] \<Rightarrow> False
      | c # r \<Rightarrow>
          if c = 46 then (case r of [] \<Rightarrow> False | d # _ \<Rightarrow> is_digit d)
          else if c = 101 \<or> c = 69 then
            (case r of
               [] \<Rightarrow> False
             | d # r' \<Rightarrow>
                 if d = 45 \<or> d = 43 then (case r' of [] \<Rightarrow> False | d' # _ \<Rightarrow> is_digit d')
                 else is_digit d)
          else False)"

definition scan_number :: "pystr \<Rightarrow> (json \<times> pystr) option" where
  "scan_number s =
     (let negative = (s \<noteq> [] \<and> hd s = 45);
          r = (if negative then tl s else s);
          ds = (if r \<noteq> [] \<and> hd r = 48 then [48] else takeWhile is_digit r);
          rest = drop (length ds) r
      in if ds = [] \<or> float_tail rest then None
         else Some (JInt (if negative then - int (read_nat ds) else int (read_nat ds)), rest))"

definition dict_of :: "(pystr \<times> json) list \<Rightarrow> (pystr \<times> json) list" where
  "dict_of kvs = foldl (\<lambda>d (k, v). AList.update k v d) [] kvs"

fun scan_value :: "nat \<Rightarrow> pystr \<Rightarrow> (json \<times> pystr) option"
  and scan_items :: "nat \<Rightarrow> pystr \<Rightarrow> (json list \<times> pystr) option"
  and scan_members :: "nat \<Rightarrow> pystr \<Rightarrow> ((pystr \<times> json) list \<times> pystr) option" where
  "scan_value 0 s = None"
| "scan_value (Suc n) s =
     (case s of
        [] \<Rightarrow> None
      | c # r \<Rightarrow>
          if c = 34 then
            (case scan_string r of None \<Rightarrow> None | Some (t, rest) \<Rightarrow> Some (JStr t, rest))
          else if c = 91 then
            (if skip_ws r \<noteq> [] \<and> hd (skip_ws r) = 93 then Some (JList [], tl (skip_ws r))
             else (case scan_items n (skip_ws r) of
                     None \<Rightarrow> None
                   | Some (vs, rest) \<Rightarrow> Some (JList vs, rest)))
          else if c = 123 then
            (if skip_ws r \<noteq> [] \<and> hd (skip_ws r) = 125 then Some (JDict [], tl (skip_ws r))
             else (case scan_members n (skip_ws r) of
                     None \<Rightarrow> None
                   | Some (kvs, rest) \<Rightarrow> Some (JDict (dict_of kvs), rest)))
          else if prefix (ascii ''null'') s then Some (JNull, drop 4 s)
          else if prefix (ascii ''true'') s then Some (JBool True, drop 4 s)
          else if prefix (ascii ''false'') s then Some (JBool False, drop 5 s)
          else scan_number s)"
| "scan_items 0 s = None"
| "scan_items (Suc n) s =
     (case scan_value n s of
        None \<Rightarrow> None
      | Some (v, r) \<Rightarrow>
          (case skip_ws r of
             [] \<Rightarrow> None
           | c # r' \<Rightarrow>
               if c = 44 then
                 (case scan_items n (skip_ws r') of
                    None \<Rightarrow> None
                  | Some (vs, rest) \<Rightarrow> Some (v # vs, rest))
               else if c = 93 then Some ([v], r')
               else None))"
| "scan_members 0 s = None"
| "scan_members (Suc n) s =
     (case s of
        [] \<Rightarrow> None
      | q # r \<Rightarrow>
          if q \<noteq> 34 then None
          else
            (case scan_string r of
               None \<Rightarrow> None
             | Some (k, r1) \<Rightarrow>
                 (case skip_ws r1 of
                    [] \<Rightarrow> None
                  | c # r2 \<Rightarrow>
                      if c \<noteq> 58 then None
                      else
                        (case scan_value n (skip_ws r2) of
                           None \<Rightarrow> None
                         | Some (v, r3) \<Rightarrow>
                             (case skip_ws r3 of
                                [] \<Rightarrow> None
                              | c' # r4 \<Rightarrow>
                                  if c' = 44 then
                                    (case scan_members n (skip_ws r4) of
                                       None \<Rightarrow> None
                                     | Some (kvs, rest) \<Rightarrow> Some ((k, v) # kvs, rest))
                                  else if c' = 125 then Some ([(k, v)], r4)
                                  else None)))))"

definition json_parse :: "pystr \<Rightarrow> json option" where
  "json_parse t =
     (case scan_value (2 * length t + 2) (skip_ws t) of
        None \<Rightarrow> None
      | Some (v, rest) \<Rightarrow> if skip_ws rest = [] then Some v else None)"

text \<open>
  The values that come back from a file as they were written: built from \<open>None\<close>,
  booleans, integers, strings without surrogates, lists, and dictionaries whose keys are
  distinct; no tuple. The depth bound a value needs and the characters that may follow a
  value inside a document are used in the proofs.
\<close>

definition plain_str :: "pystr \<Rightarrow> bool" where
  "plain_str s = list_all (\<lambda>c. c < 0x110000 \<and> \<not> (0xD800 \<le> c \<and> c \<le> 0xDFFF)) s"

fun json_plain :: "json \<Rightarrow> bool"
  and plain_items :: "json list \<Rightarrow> bool"
  and plain_members :: "(pystr \<times> json) list \<Rightarrow> bool" where
  "json_plain JNull = True"
| "json_plain (JBool b) = True"
| "json_plain (JInt i) = True"
| "json_plain (JStr s) = plain_str s"
| "json_plain (JList xs) = plain_items xs"
| "json_plain (JTuple xs) = False"
| "json_plain (JDict kvs) = (distinct (map fst kvs) \<and> plain_members kvs)"
| "plain_items [] = True"
| "plain_items (x # xs) = (json_plain x \<and> plain_items xs)"
| "plain_members [] = True"
| "plain_members ((k, v) # kvs) = (plain_str k \<and> json_plain v \<and> plain_members kvs)"

definition json_stop :: "pystr \<Rightarrow> bool" where
  "json_stop rest = (rest = [] \<or> hd rest = 44 \<or> hd rest = 93 \<or> hd rest = 125)"

fun json_fuel :: "json \<Rightarrow> nat"
  and items_fuel :: "json list \<Rightarrow> nat"
  and members_fuel :: "(pystr \<times> json) list \<Rightarrow> nat" where
  "json_fuel (JList xs) = Suc (items_fuel xs)"
| "json_fuel (JTuple xs) = Suc (items_fuel xs)"
| "json_fuel (JDict kvs) = Suc (members_fuel kvs)"
| "json_fuel v = Suc 0"
| "items_fuel [] = 0"
| "items_fuel (x # xs) = Suc (max (json_fuel x) (items_fuel xs))"
| "members_fuel [] = 0"
| "members_fuel ((k, v) # kvs) = Suc (max (json_fuel v) (members_fuel kvs))"

section \<open>What the specification asks\<close>

text \<open>
  Percent-encoding in the specification's words: an encoded value consists of unreserved
  characters and \<open>%XX\<close> triples, and decodes to the bytes it stands for. A link carries
  a query parameter when \<open>?name=value\<close> or \<open>&name=value\<close> occurs in it with the value
  percent-encoded. A template uses braces for placeholders only when every \<open>{\<close> in it
  starts \<open>{name}\<close>. The recipients of the messages an attempt handed to the server are
  read off its events.
\<close>

definition is_hex :: "nat \<Rightarrow> bool" where
  "is_hex h = ((48 \<le> h \<and> h \<le> 57) \<or> (65 \<le> h \<and> h \<le> 70))"

fun percent_encoded :: "pystr \<Rightarrow> bool" where
  "percent_encoded [] = True"
| "percent_encoded (c # s) =
     (if c = 37 then
        (case s of h1 # h2 # r \<Rightarrow> is_hex h1 \<and> is_hex h2 \<and> percent_encoded r | _ \<Rightarrow> False)
      else always_safe c \<and> percent_encoded s)"

definition hexval :: "nat \<Rightarrow> nat" where
  "hexval h = (if h \<le> 57 then h - 48 else h - 55)"

fun percent_decode :: "pystr \<Rightarrow> nat list" where
  "percent_decode [] = []"
| "percent_decode (c # s) =
     (if c = 37 then
        (case s of h1 # h2 # r \<Rightarrow> (16 * hexval h1 + hexval h2) # percent_decode r
         | _ \<Rightarrow> c # percent_decode s)
      else c # percent_decode s)"

definition has_query_param :: "pystr \<Rightarrow> pystr \<Rightarrow> pystr \<Rightarrow> bool" where
  "has_query_param url name v =
     (case quote v of
        Inl e \<Rightarrow> False
      | Inr q \<Rightarrow> py_in ([63] @ name @ [61] @ q) url \<or> py_in ([38] @ name @ [61] @ q) url)"

fun braces_open_placeholders :: "pystr \<Rightarrow> bool" where
  "braces_open_placeholders [] = True"
| "braces_open_placeholders (c # s) =
     ((c = 123 \<longrightarrow> prefix name_placeholder (c # s)) \<and> braces_open_placeholders s)"

fun sent_to :: "smtp_event list \<Rightarrow> pyval list" where
  "sent_to [] = []"
| "sent_to (MessageSent msg # t) = msg_to msg # sent_to t"
| "sent_to (ev # t) = sent_to t"

section \<open>Concrete inputs\<close>

text \<open>
  An instance of the library record, transports and inputs on which the functions above are
  evaluated below. The library instance lower-cases and strips ASCII only and knows two
  documents. The refusing transport raises what \<open>smtplib\<close> raises when the server refuses
  every recipient: \<open>SMTPRecipientsRefused\<close>, whose text is the dictionary of the refused
  addresses, here \<open>U+2705\<close>\<open>@example.com\<close>.
\<close>

definition ascii_lower :: "pystr \<Rightarrow> pystr" where
  "ascii_lower s = map (\<lambda>c. if 65 \<le> c \<and> c \<le> 90 then c + 32 else c) s"

definition strip_spaces :: "pystr \<Rightarrow> pystr" where
  "strip_spaces s = rev (dropWhile (\<lambda>c. c = 32) (rev (dropWhile (\<lambda>c. c = 32) s)))"

definition demo_rows :: json where
  "demo_rows = JList [JDict [(ascii ''email'', JStr (ascii ''a@x.org''))],
                      JDict [(ascii ''email'', JStr (ascii ''b@x.org''))],
                      JDict [(ascii ''email'', JStr (ascii ''c@x.org''))]]"

definition demo_text :: "int \<Rightarrow> pystr" where
  "demo_text k = ascii ''checkpoint '' @ [48 + nat k]"

definition demo_lib :: pylib where
  "demo_lib =
     \<lparr>str_lower = ascii_lower, str_strip = strip_spaces,
      open_write = (\<lambda>p. None), open_read = (\<lambda>p. None),
      json_dumps = (\<lambda>d. if d = checkpoint demo_rows (JInt 2) then Inr (demo_text 2)
                          else if d = checkpoint demo_rows (JInt 1) then Inr (demo_text 1)
                          else Inl (Exn TypeError (ascii ''not serializable''))),
      json_written = (\<lambda>d. []),
      json_loads = (\<lambda>t. if t = demo_text 2 then Inr (checkpoint demo_rows (JInt 2))
                          else if t = demo_text 1 then Inr (checkpoint demo_rows (JInt 1))
                          else Inl (Exn JSONDecodeError (ascii ''Expecting value'')))\<rparr>"

definition demo_run_id :: pyval where
  "demo_run_id = PyStr (ascii ''20240101_101500'')"

definition demo_files1 :: fs where
  "demo_files1 = snd (save_resume_point demo_lib Map.empty demo_run_id demo_rows (JInt 1))"

definition demo_files2 :: fs where
  "demo_files2 = snd (save_resume_point demo_lib demo_files1 demo_run_id demo_rows (JInt 2))"

definition demo_broken_text :: pystr where
  \<open>demo_broken_text = ascii ''{"data": [''\<close>

definition demo_address :: pystr where
  "demo_address = ascii ''a+b@x.org''"

definition demo_subject :: pystr where
  "demo_subject = ascii ''Hi there''"

definition demo_cta_url :: pystr where
  "demo_cta_url = ascii ''https://x.org/?a=1''"

definition demo_template :: pystr where
  "demo_template = ascii ''<p>Dear {name},</p><p>see you, {name}!</p>''"

definition nested_template :: pystr where
  "nested_template = ascii ''Dear {na{name}me},''"

definition default_cta_text :: pyval where
  "default_cta_text = PyStr ([0x1F39F, 0xFE0F] @ ascii '' Book My Ticket Now'')"

definition default_cta_url :: pyval where
  "default_cta_url = PyStr (ascii ''#'')"

definition demo_sender :: pyval where
  "demo_sender = PyStr (ascii ''andrew@corporatewellbeingexpo.com'')"

definition demo_password :: pyval where
  "demo_password = PyStr (ascii ''secret'')"

definition demo_row :: row where
  "demo_row = [(ascii ''email'', PyStr demo_address), (ascii ''full_name'', PyStr (ascii ''Sarah''))]"

definition row_without_email :: row where
  "row_without_email = [(ascii ''full_name'', PyStr (ascii ''Sarah''))]"

definition demo_frame :: dataframe where
  "demo_frame =
     \<lparr>columns = [ascii '' Email'', ascii ''Full Name''],
      cells = [[PyStr (ascii ''a@x.org''), PyStr (ascii ''Ann'')],
               [PyStr (ascii ''b@x.org''), PyStr (ascii ''Bob'')],
               [PyStr (ascii ''c@x.org''), PyStr (ascii ''Cy'')]]\<rparr>"

definition frame_refused :: dataframe where
  "frame_refused =
     \<lparr>columns = [ascii ''email'', ascii ''full name''],
      cells = [[PyStr ([0x2705] @ ascii ''@example.com''), PyStr (ascii ''Sam'')]]\<rparr>"

definition frame_without_email :: dataframe where
  "frame_without_email =
     \<lparr>columns = [ascii ''Full Name''], cells = [[PyStr (ascii ''Sarah'')]]\<rparr>"

definition transport_ok :: transport where
  "transport_ok =
     \<lparr>smtp_connect = None, smtp_starttls = None, smtp_login = (\<lambda>user password. None),
      set_header = (\<lambda>name v. None), set_content = (\<lambda>html. None),
      smtp_send_message = (\<lambda>msg. None), smtp_quit = None\<rparr>"

definition recipients_refused :: exn where
  \<comment> \<open>\<open>SMTPRecipientsRefused\<close>: its text is the dictionary of the refused addresses\<close>
  "recipients_refused =
     Exn SMTPException
       (ascii ''{'' @ quoted ([0x2705] @ ascii ''@example.com'')
        @ ascii '': (550, b'' @ quoted (ascii ''User unknown'') @ ascii '')}'')"

definition transport_refusing :: transport where
  "transport_refusing = transport_ok\<lparr>smtp_send_message := \<lambda>msg. Some recipients_refused\<rparr>"

definition authentication_error :: exn where
  "authentication_error =
     Exn SMTPException
       (ascii ''(535, b'' @ quoted (ascii ''5.7.8 Authentication failed'') @ ascii '')'')"

definition transport_bad_login :: transport where
  "transport_bad_login = transport_ok\<lparr>smtp_login := \<lambda>user password. Some authentication_error\<rparr>"

section \<open>Properties of the string operations\<close>

lemma ascii_eq_Nil [simp]: "ascii s = [] \<longleftrightarrow> s = []"
  by (simp add: ascii_def)

lemma py_or_simps [simp]:
  "s \<noteq> [] \<Longrightarrow> py_or (PyStr s) d = PyStr s"
  "py_or (PyStr []) d = d"
  "py_or PyNone d = d"
  "py_or PyNaN d = PyNaN"
  by (simp_all add: py_or_def)

lemma py_in_sublist: "py_in sub s = sublist sub s"
  by (induction s) (auto simp: sublist_Cons_right)

lemma py_in_set: "py_in sub s \<Longrightarrow> set sub \<subseteq> set s"
  by (auto simp: py_in_sublist dest: set_mono_sublist)

lemma py_in_single: "py_in [x] s \<longleftrightarrow> x \<in> set s"
  by (induction s) auto

lemma replace_empty_subseq: "subseq (py_replace s old []) s"
proof (induction s old "[] :: pystr" rule: py_replace.induct)
  case (1 old)
  then show ?case by simp
next
  case (2 c s old)
  show ?case
  proof (cases "old = []")
    case True
    with 2 show ?thesis by simp
  next
    case False
    show ?thesis
    proof (cases "prefix old (c # s)")
      case True
      with False 2 have "subseq (py_replace (c # s) old []) (drop (length old) (c # s))" by simp
      also have "subseq (drop (length old) (c # s)) (c # s)"
        by (metis append_take_drop_id subseq_order.order_refl list_emb_append2 list_emb_prefix)
      finally show ?thesis .
    next
      case False
      with \<open>old \<noteq> []\<close> 2 show ?thesis by simp
    qed
  qed
qed

lemma braces_drop: "braces_open_placeholders s \<Longrightarrow> braces_open_placeholders (drop n s)"
proof (induction s arbitrary: n)
  case Nil
  then show ?case by simp
next
  case (Cons c s)
  then show ?case by (cases n) simp_all
qed

lemma replace_removes_braces:
  "braces_open_placeholders s \<Longrightarrow> 123 \<notin> set (py_replace s name_placeholder [])"
proof (induction s name_placeholder "[] :: pystr" rule: py_replace.induct)
  case 1
  then show ?case by simp
next
  case (2 c s)
  have ne: "name_placeholder \<noteq> []" by (simp add: name_placeholder_def)
  show ?case
  proof (cases "prefix name_placeholder (c # s)")
    case True
    with 2 ne braces_drop [OF "2.prems", of "length name_placeholder"] show ?thesis by simp
  next
    case False
    with 2 ne show ?thesis by auto
  qed
qed

lemma replace_no_placeholder:
  assumes "braces_open_placeholders s"
  shows "\<not> py_in name_placeholder (py_replace s name_placeholder [])"
proof
  assume "py_in name_placeholder (py_replace s name_placeholder [])"
  then have "set name_placeholder \<subseteq> set (py_replace s name_placeholder [])"
    by (rule py_in_set)
  moreover have "123 \<in> set name_placeholder" by (simp add: name_placeholder_def ascii_def)
  ultimately show False using replace_removes_braces [OF assms] by blast
qed

section \<open>Properties of \<open>quote\<close>\<close>

lemma is_hex_hexdigit: "d < 16 \<Longrightarrow> is_hex (hexdigit d)"
  by (auto simp: is_hex_def hexdigit_def)

lemma hexval_hexdigit: "d < 16 \<Longrightarrow> hexval (hexdigit d) = d"
  by (auto simp: hexval_def hexdigit_def)

lemma not_safe_percent [simp]: "\<not> always_safe 37"
  by (simp add: always_safe_def)

lemma percent_encoded_quote_byte:
  "percent_encoded (quote_byte b @ r) = percent_encoded r"
  by (simp add: quote_byte_def is_hex_hexdigit)

lemma percent_encoded_quote_bytes: "percent_encoded (concat (map quote_byte bs))"
  by (induction bs) (simp_all add: percent_encoded_quote_byte)

lemma percent_decode_quote_byte:
  "b < 256 \<Longrightarrow> percent_decode (quote_byte b @ r) = b # percent_decode r"
  by (simp add: quote_byte_def hexval_hexdigit)

lemma percent_decode_quote_bytes:
  "\<forall>b\<in>set bs. b < 256 \<Longrightarrow> percent_decode (concat (map quote_byte bs)) = bs"
  by (induction bs) (simp_all add: percent_decode_quote_byte)

lemma surrogate_error_lone:
  "surrogate_error 0 [0xD800]
     = Exn UnicodeEncodeError
         (quoted (ascii ''utf-8'') @ ascii '' codec can'' @ [39]
          @ ascii ''t encode character '' @ quoted (92 # 117 # ascii ''d800'')
          @ ascii '' in position 0: surrogates not allowed'')"
  by (simp add: surrogate_error_def is_surrogate_def hex4_def hexlow_def show_nat.simps [of 0]
        ascii_def)

lemma utf8_char_bytes: "c < 0x110000 \<Longrightarrow> \<forall>b\<in>set (utf8_char c). b < 256"
  by (auto simp: utf8_char_def)

lemma utf8_from_bytes: "utf8_from i s = Inr bs \<Longrightarrow> \<forall>b\<in>set bs. b < 256"
proof (induction s arbitrary: i bs)
  case Nil
  then show ?case by simp
next
  case (Cons c s)
  then obtain rest where c: "c < 0x110000" and s: "utf8_from (Suc i) s = Inr rest"
    and bs: "bs = utf8_char c @ rest"
    by (auto split: sum.splits if_splits)
  from utf8_char_bytes [OF c] Cons.IH [OF s] bs show ?case by auto
qed

lemma utf8_encode_bytes: "utf8_encode s = Inr bs \<Longrightarrow> \<forall>b\<in>set bs. b < 256"
  unfolding utf8_encode_def by (rule utf8_from_bytes)

lemma quote_percent_encoded:
  assumes "quote s = Inr q"
  shows "percent_encoded q" and "utf8_encode s = Inr (percent_decode q)"
  using assms
  by (auto simp: quote_def percent_encoded_quote_bytes percent_decode_quote_bytes
           split: sum.splits dest: utf8_encode_bytes)

lemma py_quote_percent_encoded: "py_quote v = Inr q \<Longrightarrow> percent_encoded q"
  by (cases v) (auto dest: quote_percent_encoded(1))

section \<open>Properties of the generator\<close>

lemma generate_email_html_Inr:
  assumes "generate_email_html full_name recipient_email subject custom_html cta_text cta_url
             = Inr html"
  obtains encoded_subject encoded_cta_url custom_html_rendered where
    "py_quote (py_or subject (PyStr (ascii ''No Subject''))) = Inr encoded_subject"
    "py_quote cta_url = Inr encoded_cta_url"
    "str_replace custom_html name_placeholder (py_or full_name (PyStr [])) = Inr custom_html_rendered"
    "html = html_document
              (tracking_pixel (py_or recipient_email (PyStr (ascii ''unknown@example.com'')))
                 encoded_subject)
              custom_html_rendered
              (tracking_link (py_or recipient_email (PyStr (ascii ''unknown@example.com'')))
                 encoded_cta_url encoded_subject)
              (py_format cta_text)
              (unsubscribe_link (py_or recipient_email (PyStr (ascii ''unknown@example.com''))))"
  using assms by (auto simp: generate_email_html_def Let_def split: sum.splits)

lemma generate_email_html_returns:
  assumes "py_quote (py_or subject (PyStr (ascii ''No Subject''))) = Inr es"
    and "py_quote cta_url = Inr ec"
    and "str_replace custom_html name_placeholder (py_or full_name (PyStr [])) = Inr body"
  shows "generate_email_html full_name recipient_email subject custom_html cta_text cta_url
           = Inr (html_document
                   (tracking_pixel (py_or recipient_email (PyStr (ascii ''unknown@example.com''))) es)
                   body
                   (tracking_link (py_or recipient_email (PyStr (ascii ''unknown@example.com''))) ec es)
                   (py_format cta_text)
                   (unsubscribe_link (py_or recipient_email (PyStr (ascii ''unknown@example.com'')))))"
  using assms by (simp add: generate_email_html_def Let_def)

lemma generate_email_html_no_template:
  "\<exists>e. generate_email_html full_name recipient_email subject PyNone cta_text cta_url = Inl e"
  by (simp add: generate_email_html_def Let_def split: sum.splits)

lemma sublist_html_document:
  "sublist pixel (html_document pixel body link label unsubscribe)"
  "sublist body (html_document pixel body link label unsubscribe)"
  "sublist link (html_document pixel body link label unsubscribe)"
  "sublist label (html_document pixel body link label unsubscribe)"
  "sublist unsubscribe (html_document pixel body link label unsubscribe)"
  unfolding html_document_def
  by (metis sublist_appendI append.assoc)+

lemma sublist_open_url: "sublist (open_tracking_url e es) (tracking_pixel e es)"
  unfolding tracking_pixel_def by (metis sublist_appendI)

lemmas quote_eval =
  quote_def ascii_def utf8_encode_def is_surrogate_def utf8_char_def quote_byte_def
  always_safe_def hexdigit_def

lemma demo_quotes:
  "quote demo_address = Inr (ascii ''a%2Bb%40x.org'')"
  "quote demo_subject = Inr (ascii ''Hi%20there'')"
  "quote demo_cta_url = Inr (ascii ''https%3A%2F%2Fx.org%2F%3Fa%3D1'')"
  by (simp_all add: demo_address_def demo_subject_def demo_cta_url_def quote_eval)

lemma demo_nonempty [simp]: "demo_address \<noteq> []" "demo_subject \<noteq> []"
  by (simp_all add: demo_address_def demo_subject_def)

lemma demo_replace:
  "py_replace demo_template name_placeholder (ascii ''Sarah'')
     = ascii ''<p>Dear Sarah,</p><p>see you, Sarah!</p>''"
  "py_replace demo_template name_placeholder [] = ascii ''<p>Dear ,</p><p>see you, !</p>''"
  by (simp_all add: demo_template_def name_placeholder_def ascii_def)

lemma demo_render:
  "generate_email_html (PyStr (ascii ''Sarah'')) (PyStr demo_address) (PyStr demo_subject)
      (PyStr demo_template) (PyStr (ascii ''Book'')) (PyStr demo_cta_url)
    = Inr (html_document
            (tracking_pixel (PyStr demo_address) (ascii ''Hi%20there''))
            (ascii ''<p>Dear Sarah,</p><p>see you, Sarah!</p>'')
            (tracking_link (PyStr demo_address) (ascii ''https%3A%2F%2Fx.org%2F%3Fa%3D1'')
               (ascii ''Hi%20there''))
            (ascii ''Book'')
            (unsubscribe_link (PyStr demo_address)))"
proof -
    have "generate_email_html (PyStr (ascii ''Sarah'')) (PyStr demo_address) (PyStr demo_subject)
        (PyStr demo_template) (PyStr (ascii ''Book'')) (PyStr demo_cta_url)
      = Inr (html_document
              (tracking_pixel (py_or (PyStr demo_address) (PyStr (ascii ''unknown@example.com'')))
                 (ascii ''Hi%20there''))
              (ascii ''<p>Dear Sarah,</p><p>see you, Sarah!</p>'')
              (tracking_link (py_or (PyStr demo_address) (PyStr (ascii ''unknown@example.com'')))
                 (ascii ''https%3A%2F%2Fx.org%2F%3Fa%3D1'') (ascii ''Hi%20there''))
              (py_format (PyStr (ascii ''Book'')))
              (unsubscribe_link (py_or (PyStr demo_address) (PyStr (ascii ''unknown@example.com'')))))"
      by (rule generate_email_html_returns) (simp_all add: demo_quotes demo_replace)
    then show ?thesis by simp
qed

lemma demo_template_braces: "braces_open_placeholders demo_template"
  by (simp add: demo_template_def name_placeholder_def ascii_def)




text \<open>
  Claim C6 against the code: with the template absent (\<open>custom_html=None\<close>, the
  parameter's own default) the generator raises \<open>AttributeError\<close> instead of returning a
  message; here the call has the other defaults of the signature as well.
\<close>

theorem generate_email_html_absent_template_raises:
  "generate_email_html (PyStr (ascii ''Sarah Johnson'')) PyNone PyNone PyNone
      default_cta_text default_cta_url
     = Inl (Exn AttributeError
         (quoted (ascii ''NoneType'') @ ascii '' object has no attribute ''
          @ quoted (ascii ''replace'')))"
proof -
  have "quote (ascii ''No Subject'') = Inr (ascii ''No%20Subject'')"
    and "quote (ascii ''#'') = Inr (ascii ''%23'')"
    by (simp_all add: quote_eval)
  then show ?thesis
    by (simp add: generate_email_html_def Let_def default_cta_url_def)
qed

text \<open>
  Claim C7, as stated, fails. \<open>replace\<close> makes one pass, so removing the placeholder
  from \<open>Dear {na{name}me},\<close> leaves \<open>Dear {name},\<close>, which holds a placeholder;
  and with a subject that cannot be encoded (a lone surrogate) the generator raises although
  the name is absent.
\<close>

theorem generate_email_html_absent_name_counterexample:
  "generate_email_html PyNone (PyStr demo_address) (PyStr demo_subject)
      (PyStr nested_template) (PyStr (ascii ''Book'')) (PyStr demo_cta_url)
    = Inr (html_document
            (tracking_pixel (PyStr demo_address) (ascii ''Hi%20there''))
            (ascii ''Dear {name},'')
            (tracking_link (PyStr demo_address) (ascii ''https%3A%2F%2Fx.org%2F%3Fa%3D1'')
               (ascii ''Hi%20there''))
            (ascii ''Book'')
            (unsubscribe_link (PyStr demo_address)))
   \<and> py_in name_placeholder (ascii ''Dear {name},'')
   \<and> generate_email_html PyNone (PyStr demo_address) (PyStr [0xD800])
        (PyStr demo_template) (PyStr (ascii ''Book'')) (PyStr demo_cta_url)
       = Inl (Exn UnicodeEncodeError
             (quoted (ascii ''utf-8'') @ ascii '' codec can'' @ [39]
              @ ascii ''t encode character '' @ quoted (92 # 117 # ascii ''d800'')
              @ ascii '' in position 0: surrogates not allowed''))"
proof -
  have r: "py_replace nested_template name_placeholder [] = ascii ''Dear {name},''"
    by (simp add: nested_template_def name_placeholder_def ascii_def)
  have "generate_email_html PyNone (PyStr demo_address) (PyStr demo_subject)
      (PyStr nested_template) (PyStr (ascii ''Book'')) (PyStr demo_cta_url)
    = Inr (html_document
            (tracking_pixel (py_or (PyStr demo_address) (PyStr (ascii ''unknown@example.com'')))
               (ascii ''Hi%20there''))
            (ascii ''Dear {name},'')
            (tracking_link (py_or (PyStr demo_address) (PyStr (ascii ''unknown@example.com'')))
               (ascii ''https%3A%2F%2Fx.org%2F%3Fa%3D1'') (ascii ''Hi%20there''))
            (py_format (PyStr (ascii ''Book'')))
            (unsubscribe_link (py_or (PyStr demo_address) (PyStr (ascii ''unknown@example.com'')))))"
    by (rule generate_email_html_returns) (simp_all add: demo_quotes r)
  moreover have "py_in name_placeholder (ascii ''Dear {name},'')"
    by (simp add: name_placeholder_def ascii_def)
  moreover have "generate_email_html PyNone (PyStr demo_address) (PyStr [0xD800])
        (PyStr demo_template) (PyStr (ascii ''Book'')) (PyStr demo_cta_url)
       = Inl (Exn UnicodeEncodeError
             (quoted (ascii ''utf-8'') @ ascii '' codec can'' @ [39]
              @ ascii ''t encode character '' @ quoted (92 # 117 # ascii ''d800'')
              @ ascii '' in position 0: surrogates not allowed''))"
    by (simp add: generate_email_html_def Let_def quote_def utf8_encode_def is_surrogate_def
          surrogate_error_lone)
  ultimately show ?thesis by simp
qed

text \<open>
  Claim C7, amended. For a recipient whose \<open>full_name\<close> is \<open>None\<close> or the empty
  string, a template that is a string, and a subject and button address that \<open>quote\<close>
  accepts, the generator returns; the text put in for the template is the template with the
  placeholders found in one pass from the left removed and nothing put in their place (it is
  a subsequence of the template, so no \<open>None\<close> is written); and it holds no placeholder
  when every \<open>{\<close> of the template starts a placeholder.
\<close>

theorem generate_email_html_absent_name:
  assumes absent: "full_name = PyNone \<or> full_name = PyStr []"
    and subject: "py_quote (py_or subject (PyStr (ascii ''No Subject''))) = Inr encoded_subject"
    and cta: "py_quote cta_url = Inr encoded_cta_url"
  shows "generate_email_html full_name recipient_email subject (PyStr template) cta_text cta_url
           = Inr (html_document
                   (tracking_pixel (py_or recipient_email (PyStr (ascii ''unknown@example.com'')))
                      encoded_subject)
                   (py_replace template name_placeholder [])
                   (tracking_link (py_or recipient_email (PyStr (ascii ''unknown@example.com'')))
                      encoded_cta_url encoded_subject)
                   (py_format cta_text)
                   (unsubscribe_link (py_or recipient_email (PyStr (ascii ''unknown@example.com'')))))
         \<and> subseq (py_replace template name_placeholder []) template
         \<and> (braces_open_placeholders template \<longrightarrow>
              \<not> py_in name_placeholder (py_replace template name_placeholder []))"
proof -
  from absent have "py_or full_name (PyStr []) = PyStr []" by auto
  then have "str_replace (PyStr template) name_placeholder (py_or full_name (PyStr []))
               = Inr (py_replace template name_placeholder [])"
    by simp
  from generate_email_html_returns [OF subject cta this] replace_empty_subseq
    replace_no_placeholder
  show ?thesis by blast
qed

theorem generate_email_html_absent_name_witness:
  "generate_email_html PyNone (PyStr demo_address) (PyStr demo_subject) (PyStr demo_template)
      (PyStr (ascii ''Book'')) (PyStr demo_cta_url)
    = Inr (html_document
            (tracking_pixel (PyStr demo_address) (ascii ''Hi%20there''))
            (ascii ''<p>Dear ,</p><p>see you, !</p>'')
            (tracking_link (PyStr demo_address) (ascii ''https%3A%2F%2Fx.org%2F%3Fa%3D1'')
               (ascii ''Hi%20there''))
            (ascii ''Book'')
            (unsubscribe_link (PyStr demo_address)))
   \<and> braces_open_placeholders demo_template
   \<and> subseq (ascii ''<p>Dear ,</p><p>see you, !</p>'') demo_template
   \<and> \<not> py_in name_placeholder (ascii ''<p>Dear ,</p><p>see you, !</p>'')"
  using generate_email_html_absent_name
    [of PyNone "PyStr demo_subject" "ascii ''Hi%20there''" "PyStr demo_cta_url"
        "ascii ''https%3A%2F%2Fx.org%2F%3Fa%3D1''" "PyStr demo_address" demo_template
        "PyStr (ascii ''Book'')"]
    demo_template_braces
  by (simp add: demo_quotes demo_replace)

section \<open>Properties of the send channel\<close>

lemma io_bind_simps [simp]:
  "io_bind (Inl e, t) f = (Inl e, t)"
  "io_bind (Inr x, t) f = (case f x of (r, t') \<Rightarrow> (r, t @ t'))"
  by (simp_all add: io_bind_def)

lemma io_call_simps [simp]:
  "io_call None evs = (Inr (), evs)"
  "io_call (Some e) evs = (Inl e, [])"
  by (simp_all add: io_call_def)

lemma transport_ok_simps [simp]:
  "smtp_connect transport_ok = None" "smtp_starttls transport_ok = None"
  "smtp_login transport_ok u p = None" "set_header transport_ok n v = None"
  "set_content transport_ok h = None" "smtp_send_message transport_ok m = None"
  "smtp_quit transport_ok = None"
  by (simp_all add: transport_ok_def)

lemma row_get_demo [simp]:
  "row_get demo_row (ascii ''email'') = Inr (PyStr demo_address)"
  "row_get demo_row (ascii ''full_name'') = Inr (PyStr (ascii ''Sarah''))"
  "row_get row_without_email (ascii ''email'') = Inl (Exn KeyError (quoted (ascii ''email'')))"
  by (simp_all add: row_get_def demo_row_def row_without_email_def ascii_def)

lemma row_get_pair [simp]:
  "row_get [(ascii ''email'', e), (ascii ''full_name'', n)] (ascii ''email'') = Inr e"
  "row_get [(ascii ''email'', e), (ascii ''full_name'', n)] (ascii ''full_name'') = Inr n"
  by (simp_all add: row_get_def ascii_def)

lemma send_email_delivers:
  assumes "row_get r (ascii ''email'') = Inr to"
    and "row_get r (ascii ''full_name'') = Inr full_name"
    and "generate_email_html full_name to subject custom_html cta_text cta_url = Inr html"
  shows "send_email transport_ok sender_email sender_password r subject custom_html cta_text cta_url
           = (Inr (to, delivered_text),
              [Connected, TlsStarted, LoggedIn,
               MessageSent \<lparr>msg_from = sender_email, msg_to = to, msg_subject = subject,
                            msg_content = html\<rparr>,
               Quit])"
  using assms by (simp add: send_email_def send_email_try_def Let_def io_pure_def)

lemma send_email_without_email:
  assumes "map_of r (ascii ''email'') = None"
  shows "\<exists>e t. send_email net sender_email sender_password r subject custom_html cta_text cta_url
                  = (Inl e, t) \<and> sent_to t = []"
  using assms
  by (cases "smtp_connect net"; cases "smtp_starttls net";
      cases "smtp_login net sender_email sender_password";
      cases "set_header net (ascii ''From'') sender_email")
     (simp_all add: send_email_def send_email_try_def row_get_def io_pure_def)

lemma send_email_row_without_email:
  "send_email transport_ok demo_sender demo_password row_without_email (PyStr demo_subject)
      (PyStr demo_template) (PyStr (ascii ''Book'')) (PyStr demo_cta_url)
     = (Inl (Exn KeyError (quoted (ascii ''email''))), [Connected, TlsStarted, LoggedIn])"
  by (simp add: send_email_def send_email_try_def is_Exception_def io_pure_def)

lemma demo_generate:
  "\<exists>html. generate_email_html (PyStr n) (PyStr e) (PyStr demo_subject) (PyStr demo_template)
             (PyStr (ascii ''Book'')) (PyStr demo_cta_url) = Inr html"
proof -
  have "\<exists>body. str_replace (PyStr demo_template) name_placeholder (py_or (PyStr n) (PyStr []))
                 = Inr body"
    by (cases "n = []") simp_all
  then obtain body where
    "str_replace (PyStr demo_template) name_placeholder (py_or (PyStr n) (PyStr [])) = Inr body" ..
  from generate_email_html_returns [OF _ _ this, of "PyStr demo_subject" _ "PyStr demo_cta_url"]
  show ?thesis by (simp add: demo_quotes)
qed

lemma send_email_demo_delivers:
  "fst (send_email transport_ok demo_sender demo_password
          [(ascii ''email'', PyStr e), (ascii ''full_name'', PyStr n)]
          (PyStr demo_subject) (PyStr demo_template) (PyStr (ascii ''Book'')) (PyStr demo_cta_url))
     = Inr (PyStr e, delivered_text)"
  "sent_to (snd (send_email transport_ok demo_sender demo_password
          [(ascii ''email'', PyStr e), (ascii ''full_name'', PyStr n)]
          (PyStr demo_subject) (PyStr demo_template) (PyStr (ascii ''Book'')) (PyStr demo_cta_url)))
     = [PyStr e]"
proof -
  obtain html where "generate_email_html (PyStr n) (PyStr e) (PyStr demo_subject)
      (PyStr demo_template) (PyStr (ascii ''Book'')) (PyStr demo_cta_url) = Inr html"
    using demo_generate by blast
  from send_email_delivers [OF row_get_pair(1) row_get_pair(2) this, of demo_sender demo_password]
  show "fst (send_email transport_ok demo_sender demo_password
          [(ascii ''email'', PyStr e), (ascii ''full_name'', PyStr n)]
          (PyStr demo_subject) (PyStr demo_template) (PyStr (ascii ''Book'')) (PyStr demo_cta_url))
     = Inr (PyStr e, delivered_text)"
    and "sent_to (snd (send_email transport_ok demo_sender demo_password
          [(ascii ''email'', PyStr e), (ascii ''full_name'', PyStr n)]
          (PyStr demo_subject) (PyStr demo_template) (PyStr (ascii ''Book'')) (PyStr demo_cta_url)))
     = [PyStr e]"
    by simp_all
qed

lemma send_email_demo_refused:
  "send_email transport_refusing demo_sender demo_password
          [(ascii ''email'', PyStr e), (ascii ''full_name'', PyStr n)]
          (PyStr demo_subject) (PyStr demo_template) (PyStr (ascii ''Book'')) (PyStr demo_cta_url)
     = (Inr (PyStr e, failed_text recipients_refused), [Connected, TlsStarted, LoggedIn])"
proof -
  obtain html where "generate_email_html (PyStr n) (PyStr e) (PyStr demo_subject)
      (PyStr demo_template) (PyStr (ascii ''Book'')) (PyStr demo_cta_url) = Inr html"
    using demo_generate by blast
  then show ?thesis
    by (simp add: send_email_def send_email_try_def io_pure_def transport_refusing_def
          is_Exception_def recipients_refused_def)
qed

text \<open>
  The paths of \<open>send_email\<close> for a row that has an \<open>email\<close> field: the message is
  delivered and the connection released; or an exception is caught and a failed outcome
  returned, with the connection not released; or an exception that is no \<open>Exception\<close>
  leaves the function.
\<close>

lemma io_bind_Inr:
  "io_bind m f = (Inr y, t) \<longleftrightarrow> (\<exists>x t1 t2. m = (Inr x, t1) \<and> f x = (Inr y, t2) \<and> t = t1 @ t2)"
  by (cases m; cases "fst m") (auto simp: io_bind_def split: prod.splits)

lemma io_bind_Inl:
  "io_bind m f = (Inl e, t) \<longleftrightarrow>
     m = (Inl e, t) \<or> (\<exists>x t1 t2. m = (Inr x, t1) \<and> f x = (Inl e, t2) \<and> t = t1 @ t2)"
  by (cases m; cases "fst m") (auto simp: io_bind_def split: prod.splits)

lemma io_call_eq:
  "io_call r evs = (Inr u, t) \<longleftrightarrow> r = None \<and> t = evs"
  "io_call r evs = (Inl e, t) \<longleftrightarrow> r = Some e \<and> t = []"
  by (cases r; auto simp: io_call_def)+

lemma io_pure_eq: "io_pure r = (x, t) \<longleftrightarrow> r = x \<and> t = []"
  by (auto simp: io_pure_def)

lemma send_email_try_Inr:
  assumes "send_email_try net sender_email sender_password r subject custom_html cta_text cta_url
             = (Inr res, t)"
  shows "\<exists>to html. row_get r (ascii ''email'') = Inr to \<and> res = (to, delivered_text)
           \<and> t = [Connected, TlsStarted, LoggedIn,
                  MessageSent \<lparr>msg_from = sender_email, msg_to = to, msg_subject = subject,
                               msg_content = html\<rparr>,
                  Quit]"
  using assms
  by (auto simp: send_email_try_def io_bind_Inr io_call_eq io_pure_eq Let_def)

lemma send_email_try_Inl:
  assumes "send_email_try net sender_email sender_password r subject custom_html cta_text cta_url
             = (Inl e, t)"
  shows "Quit \<notin> set t \<and> prefix t [Connected, TlsStarted, LoggedIn] \<or>
         (\<exists>msg. t = [Connected, TlsStarted, LoggedIn, MessageSent msg])"
  using assms
  by (auto simp: send_email_try_def io_bind_Inl io_bind_Inr io_call_eq io_pure_eq Let_def)

lemma send_email_outcomes:
  assumes "row_get r (ascii ''email'') = Inr to"
  shows "(\<exists>html. send_email net sender_email sender_password r subject custom_html cta_text cta_url
            = (Inr (to, delivered_text),
               [Connected, TlsStarted, LoggedIn,
                MessageSent \<lparr>msg_from = sender_email, msg_to = to, msg_subject = subject,
                             msg_content = html\<rparr>,
                Quit]))
       \<or> (\<exists>e t. send_email net sender_email sender_password r subject custom_html cta_text cta_url
            = (Inr (to, failed_text e), t) \<and> is_Exception e \<and> Quit \<notin> set t)
       \<or> (\<exists>e t. send_email net sender_email sender_password r subject custom_html cta_text cta_url
            = (Inl e, t) \<and> \<not> is_Exception e \<and> Quit \<notin> set t)"
proof (cases "send_email_try net sender_email sender_password r subject custom_html cta_text cta_url")
  case (Pair res t)
  show ?thesis
  proof (cases res)
    case (Inl e)
    with Pair have "Quit \<notin> set t"
      using send_email_try_Inl [of net sender_email sender_password r subject custom_html
          cta_text cta_url e t]
      by (auto dest: set_mono_prefix)
    with Pair Inl assms show ?thesis by (cases "is_Exception e") (auto simp: send_email_def)
  next
    case (Inr v)
    with Pair assms show ?thesis
      using send_email_try_Inr [of net sender_email sender_password r subject custom_html
          cta_text cta_url v t]
      by (auto simp: send_email_def)
  qed
qed

text \<open>
  Claim C4 against the code: for a row without an \<open>email\<close> field the \<open>except\<close>
  clause itself evaluates \<open>row["email"]\<close>, so \<open>send_email\<close> raises \<open>KeyError\<close> to
  its caller instead of returning a failed outcome; by then the attempt has connected and
  logged in.
\<close>

theorem send_email_raises_without_email:
  "send_email transport_ok demo_sender demo_password row_without_email (PyStr demo_subject)
      (PyStr demo_template) (PyStr (ascii ''Book'')) (PyStr demo_cta_url)
     = (Inl (Exn KeyError (quoted (ascii ''email''))), [Connected, TlsStarted, LoggedIn])"
  by (rule send_email_row_without_email)

text \<open>
  Claim C8 against the code: when the login is rejected \<open>send_email\<close> returns a failed
  outcome, and the connection it opened has not been released: \<open>quit\<close> is called on the
  path of a delivered message only.
\<close>

theorem send_email_leaves_connection_open:
  "send_email transport_bad_login demo_sender demo_password demo_row (PyStr demo_subject)
      (PyStr demo_template) (PyStr (ascii ''Book'')) (PyStr demo_cta_url)
     = (Inr (PyStr demo_address, failed_text authentication_error), [Connected, TlsStarted])
   \<and> Quit \<notin> set [Connected, TlsStarted]"
  by (simp add: send_email_def send_email_try_def is_Exception_def transport_bad_login_def
        authentication_error_def io_pure_def)

section \<open>Properties of the json model\<close>

lemma hex_value_hexlow: "d < 16 \<Longrightarrow> hex_value (hexlow d) = Some d"
  by (auto simp: hex_value_def hexlow_def)

lemma hex_digits_value:
  assumes "n < 65536"
  shows "((n div 4096 mod 16 * 16 + n div 256 mod 16) * 16 + n div 16 mod 16) * 16 + n mod 16
           = (n::nat)"
proof -
  define a where "a = n div 16"
  define b where "b = a div 16"
  define c where "c = b div 16"
  have n: "n = a * 16 + n mod 16" by (simp add: a_def)
  have a: "a = b * 16 + a mod 16" by (simp add: b_def)
  have b: "b = c * 16 + b mod 16" by (simp add: c_def)
  have "n div 256 = b" by (simp add: a_def b_def div_mult2_eq)
  moreover have "n div 4096 = c" by (simp add: a_def b_def c_def div_mult2_eq)
  moreover from assms have "c < 16" by (simp add: a_def b_def c_def div_mult2_eq)
  ultimately have "((n div 4096 mod 16 * 16 + n div 256 mod 16) * 16 + n div 16 mod 16) * 16
      + n mod 16 = ((c * 16 + b mod 16) * 16 + a mod 16) * 16 + n mod 16"
    by (simp add: a_def)
  also have "\<dots> = (b * 16 + a mod 16) * 16 + n mod 16" using b by simp
  also have "\<dots> = a * 16 + n mod 16" using a by simp
  also have "\<dots> = n" using n by simp
  finally show ?thesis .
qed

lemma read_hex4_hex4:
  assumes "n < 65536"
  shows "read_hex4 (hex4 n @ r) = Some n"
proof -
  have "map hex_value (take 4 (hex4 n @ r))
          = [Some (n div 4096 mod 16), Some (n div 256 mod 16), Some (n div 16 mod 16),
             Some (n mod 16)]"
    by (simp add: hex4_def hex_value_hexlow)
  then show ?thesis
    unfolding read_hex4_def by (simp only: list.case option.case hex_digits_value [OF assms])
qed

lemma length_hex4 [simp]: "length (hex4 n) = 4"
  by (simp add: hex4_def)

lemma cons_char_simps [simp]:
  "cons_char c None = None" "cons_char c (Some (t, rest)) = Some (c # t, rest)"
  by (simp_all add: cons_char_def)

lemma scan_string_escaped:
  assumes "c = 34 \<or> c = 92 \<or> c = 10 \<or> c = 13 \<or> c = 9 \<or> c = 8 \<or> c = 12"
  shows "scan_string (json_escape_char c @ t) = cons_char c (scan_string t)"
  using assms by (auto simp: json_escape_char_def unescape_def)

lemma scan_string_printable:
  assumes "c \<noteq> 34" "c \<noteq> 92" "32 \<le> c" "c \<le> 126"
  shows "scan_string (json_escape_char c @ t) = cons_char c (scan_string t)"
  using assms by (simp add: json_escape_char_def)

lemma scan_string_u:
  assumes "c < 0x10000" and "\<not> (0xD800 \<le> c \<and> c \<le> 0xDFFF)"
  shows "scan_string (92 # 117 # hex4 c @ t) = cons_char c (scan_string t)"
proof -
  from assms(2) have a: "(0xD800 \<le> c \<and> c \<le> 0xDBFF \<and> P) = False" for P by auto
  from assms(1) have "read_hex4 (hex4 c @ t) = Some c" by (simp add: read_hex4_hex4)
  then show ?thesis by (simp add: a)
qed

lemma scan_string_pair:
  assumes hi: "0xD800 \<le> hi" "hi \<le> 0xDBFF" and lo: "0xDC00 \<le> lo" "lo \<le> 0xDFFF"
  shows "scan_string (92 # 117 # hex4 hi @ 92 # 117 # hex4 lo @ t)
           = cons_char (0x10000 + (hi - 0xD800) * 1024 + (lo - 0xDC00)) (scan_string t)"
proof -
  from hi lo have "hi < 65536" "lo < 65536" by auto
  then have "read_hex4 (hex4 hi @ 92 # 117 # hex4 lo @ t) = Some hi"
    and "read_hex4 (hex4 lo @ t) = Some lo"
    by (simp_all add: read_hex4_hex4)
  moreover have "drop 4 (hex4 hi @ 92 # 117 # hex4 lo @ t) = 92 # 117 # hex4 lo @ t"
    and "drop 6 (hex4 hi @ 92 # 117 # hex4 lo @ t) = hex4 lo @ t"
    and "drop 10 (hex4 hi @ 92 # 117 # hex4 lo @ t) = t"
    by simp_all
  ultimately show ?thesis using hi lo
    by (simp only: scan_string.simps list.case option.case if_True if_False prefix_code
          simp_thms rel_simps)
qed

lemma scan_string_escape_char:
  assumes "c < 0x110000" and "\<not> (0xD800 \<le> c \<and> c \<le> 0xDFFF)"
  shows "scan_string (json_escape_char c @ t) = cons_char c (scan_string t)"
proof (cases "c = 34 \<or> c = 92 \<or> c = 10 \<or> c = 13 \<or> c = 9 \<or> c = 8 \<or> c = 12")
  case True
  then show ?thesis by (rule scan_string_escaped)
next
  case special: False
  show ?thesis
  proof (cases "32 \<le> c \<and> c \<le> 126")
    case True
    with special show ?thesis by (intro scan_string_printable) auto
  next
    case False
    show ?thesis
    proof (cases "c < 0x10000")
      case True
      with special False have "json_escape_char c = 92 # 117 # hex4 c"
        by (simp add: json_escape_char_def)
      with scan_string_u [OF True assms(2), of t] show ?thesis by (simp only: append_Cons append_Nil)
    next
      case big: False
      define hi where "hi = 0xD800 + (c - 0x10000) div 1024"
      define lo where "lo = 0xDC00 + (c - 0x10000) mod 1024"
      from big assms(1) have hi: "0xD800 \<le> hi" "hi \<le> 0xDBFF" by (auto simp: hi_def)
      have lo: "0xDC00 \<le> lo" "lo \<le> 0xDFFF" by (auto simp: lo_def)
      from big have c: "0x10000 + (hi - 0xD800) * 1024 + (lo - 0xDC00) = c"
        by (simp add: hi_def lo_def)
      from big special False
      have "json_escape_char c = 92 # 117 # hex4 hi @ 92 # 117 # hex4 lo"
        by (simp add: json_escape_char_def hi_def lo_def)
      with scan_string_pair [OF hi lo, of t] c show ?thesis by simp
    qed
  qed
qed

lemma scan_string_roundtrip:
  "plain_str s \<Longrightarrow> scan_string (concat (map json_escape_char s) @ 34 # rest) = Some (s, rest)"
proof (induction s)
  case Nil
  then show ?case by simp
next
  case (Cons c s)
  then show ?case by (simp add: plain_str_def scan_string_escape_char)
qed

lemma show_nat_digits: "c \<in> set (show_nat n) \<Longrightarrow> is_digit c"
proof (induction n arbitrary: c rule: show_nat.induct)
  case (1 n)
  show ?case
  proof (cases "n < 10")
    case True
    with "1.prems" show ?thesis by (simp add: show_nat.simps [of n] is_digit_def)
  next
    case False
    with "1.prems" "1.IH" show ?thesis
      by (auto simp: show_nat.simps [of n] is_digit_def)
  qed
qed

lemma show_nat_nonempty [simp]: "show_nat n \<noteq> []"
  by (simp add: show_nat.simps [of n])

lemma read_nat_snoc: "read_nat (ds @ [d]) = 10 * read_nat ds + (d - 48)"
  by (simp add: read_nat_def)

lemma read_nat_show_nat: "read_nat (show_nat n) = n"
proof (induction n rule: show_nat.induct)
  case (1 n)
  show ?case
  proof (cases "n < 10")
    case True
    then show ?thesis by (simp add: show_nat.simps [of n] read_nat_def)
  next
    case False
    with "1.IH" show ?thesis by (simp add: show_nat.simps [of n] read_nat_snoc)
  qed
qed

lemma hd_show_nat_zero: "hd (show_nat n) = 48 \<longleftrightarrow> n = 0"
proof (induction n rule: show_nat.induct)
  case (1 n)
  show ?case
  proof (cases "n < 10")
    case True
    then show ?thesis by (simp add: show_nat.simps [of n])
  next
    case False
    then have "n div 10 \<noteq> 0" by simp
    with False "1.IH" show ?thesis by (simp add: show_nat.simps [of n])
  qed
qed

lemma hd_show_nat_digit: "is_digit (hd (show_nat n))"
  by (rule show_nat_digits [of _ n]) simp

lemma takeWhile_show_nat:
  assumes "rest = [] \<or> \<not> is_digit (hd rest)"
  shows "takeWhile is_digit (show_nat n @ rest) = show_nat n"
proof -
  from assms have "takeWhile is_digit rest = []" by (cases rest) auto
  then show ?thesis by (simp add: show_nat_digits)
qed

lemma json_stop_facts:
  assumes "json_stop rest"
  shows "rest = [] \<or> \<not> is_digit (hd rest)" and "\<not> float_tail rest"
  using assms by (cases rest; auto simp: json_stop_def is_digit_def float_tail_def)+

lemma scan_number_show_int:
  assumes "json_stop rest"
  shows "scan_number (show_int i @ rest) = Some (JInt i, rest)"
proof (cases "i < 0")
  case True
  define m where "m = nat (- i)"
  with True have m: "0 < m" "- int m = i" by auto
  then have z: "hd (show_nat m) \<noteq> 48" by (simp add: hd_show_nat_zero)
  from True have s: "show_int i @ rest = 45 # show_nat m @ rest" by (simp add: show_int_def m_def)
  show ?thesis unfolding s scan_number_def
    using z m json_stop_facts [OF assms]
    by (simp add: Let_def takeWhile_show_nat read_nat_show_nat)
next
  case False
  define m where "m = nat i"
  with False have m: "int m = i" by auto
  from False have s: "show_int i @ rest = show_nat m @ rest" by (simp add: show_int_def m_def)
  have d: "hd (show_nat m) \<noteq> 45" using hd_show_nat_digit [of m] by (auto simp: is_digit_def)
  show ?thesis
  proof (cases "m = 0")
    case True
    have "show_nat 0 = [48]" by (simp add: show_nat.simps [of 0])
    with True m json_stop_facts [OF assms] show ?thesis
      unfolding s scan_number_def by (simp add: Let_def read_nat_def)
  next
    case nz: False
    then have z: "hd (show_nat m) \<noteq> 48" by (simp add: hd_show_nat_zero)
    show ?thesis unfolding s scan_number_def
      using z d m json_stop_facts [OF assms]
      by (simp add: Let_def takeWhile_show_nat read_nat_show_nat)
  qed
qed

lemma skip_ws_start: "\<not> is_ws c \<Longrightarrow> skip_ws (c # s) = c # s"
  by (simp add: skip_ws_def)

lemma skip_ws_space [simp]: "skip_ws (32 # s) = skip_ws s"
  by (simp add: skip_ws_def is_ws_def)

lemma skip_ws_Nil [simp]: "skip_ws [] = []"
  by (simp add: skip_ws_def)

lemma show_int_start:
  "\<exists>c r. show_int i = c # r \<and> (is_digit c \<or> c = 45)"
proof (cases "show_nat (nat i)")
  case Nil
  then show ?thesis by simp
next
  case (Cons c r)
  with hd_show_nat_digit [of "nat i"] show ?thesis by (auto simp: show_int_def)
qed

lemma json_text_start:
  "\<exists>c r. json_text v = c # r \<and> \<not> is_ws c \<and> c \<noteq> 93 \<and> c \<noteq> 125"
proof (cases v)
  case (JInt i)
  with show_int_start [of i] show ?thesis by (auto simp: is_ws_def is_digit_def)
qed (auto simp: ascii_def is_ws_def json_string_def)

lemma json_items_start:
  "xs \<noteq> [] \<Longrightarrow> \<exists>c r. json_items xs = c # r \<and> \<not> is_ws c \<and> c \<noteq> 93"
proof (cases xs)
  case Nil
  then show "xs \<noteq> [] \<Longrightarrow> ?thesis" by simp
next
  case (Cons x ys)
  obtain c r where "json_text x = c # r" "\<not> is_ws c" "c \<noteq> 93"
    using json_text_start [of x] by blast
  with Cons show ?thesis by (cases ys) auto
qed

lemma json_members_start: "kvs \<noteq> [] \<Longrightarrow> \<exists>r. json_members kvs = 34 # r"
proof (cases kvs)
  case Nil
  then show "kvs \<noteq> [] \<Longrightarrow> ?thesis" by simp
next
  case (Cons kv rest)
  then show ?thesis by (cases kv; cases rest) (auto simp: json_string_def)
qed

lemma dict_of_aux:
  "distinct (map fst (acc @ kvs)) \<Longrightarrow>
     foldl (\<lambda>d (k, v). AList.update k v d) acc kvs = acc @ kvs"
proof (induction kvs arbitrary: acc)
  case Nil
  then show ?case by simp
next
  case (Cons kv kvs)
  obtain k v where kv: "kv = (k, v)" by (cases kv)
  from Cons.prems kv have "k \<notin> fst ` set acc" by auto
  then have "AList.update k v acc = acc @ [(k, v)]"
    by (induction acc) auto
  with Cons.IH [of "acc @ [(k, v)]"] Cons.prems kv show ?case by simp
qed

lemma dict_of_distinct: "distinct (map fst kvs) \<Longrightarrow> dict_of kvs = kvs"
  using dict_of_aux [of "[]" kvs] by (simp add: dict_of_def)

lemma json_stop_simps [simp]:
  "json_stop []" "json_stop (44 # r)" "json_stop (93 # r)" "json_stop (125 # r)"
  by (simp_all add: json_stop_def)

lemma not_ws_simps [simp]: "\<not> is_ws 44" "\<not> is_ws 58" "\<not> is_ws 93" "\<not> is_ws 125" "\<not> is_ws 34"
  by (simp_all add: is_ws_def)

lemma scan_value_atom:
  assumes "json_stop rest"
  shows "scan_value (Suc m) (json_text JNull @ rest) = Some (JNull, rest)"
    and "scan_value (Suc m) (json_text (JBool b) @ rest) = Some (JBool b, rest)"
    and "scan_value (Suc m) (json_text (JInt i) @ rest) = Some (JInt i, rest)"
proof -
  show "scan_value (Suc m) (json_text JNull @ rest) = Some (JNull, rest)"
    by (simp add: ascii_def)
  show "scan_value (Suc m) (json_text (JBool b) @ rest) = Some (JBool b, rest)"
    by (cases b) (simp_all add: ascii_def)
  obtain c r where cr: "show_int i = c # r" "is_digit c \<or> c = 45"
    using show_int_start [of i] by blast
  then have c: "c \<noteq> 34" "c \<noteq> 91" "c \<noteq> 123" "c \<noteq> 110" "c \<noteq> 116" "c \<noteq> 102"
    by (auto simp: is_digit_def)
  have "scan_value (Suc m) (show_int i @ rest) = scan_number (show_int i @ rest)"
    unfolding cr(1) using c by (simp add: ascii_def)
  with scan_number_show_int [OF assms, of i]
  show "scan_value (Suc m) (json_text (JInt i) @ rest) = Some (JInt i, rest)" by simp
qed

lemma scan_value_string:
  assumes "plain_str s"
  shows "scan_value (Suc m) (json_text (JStr s) @ rest) = Some (JStr s, rest)"
  using scan_string_roundtrip [OF assms, of rest] by (simp add: json_string_def)

lemma scan_roundtrip:
  "json_plain v \<Longrightarrow> json_fuel v \<le> n \<Longrightarrow> json_stop rest \<Longrightarrow>
     scan_value n (json_text v @ rest) = Some (v, rest)"
  "xs \<noteq> [] \<Longrightarrow> plain_items xs \<Longrightarrow> items_fuel xs \<le> n \<Longrightarrow>
     scan_items n (json_items xs @ 93 # rest) = Some (xs, rest)"
  "kvs \<noteq> [] \<Longrightarrow> plain_members kvs \<Longrightarrow> members_fuel kvs \<le> n \<Longrightarrow>
     scan_members n (json_members kvs @ 125 # rest) = Some (kvs, rest)"
proof (induction v and xs and kvs arbitrary: n rest and n rest and n rest
       rule: json_text_json_items_json_members.induct)
  case 1
  then obtain m where "n = Suc m" by (cases n) auto
  with 1 show ?case by (simp only: scan_value_atom)
next
  case (2 b)
  then obtain m where "n = Suc m" by (cases n) auto
  with 2 show ?case by (simp only: scan_value_atom)
next
  case (3 i)
  then obtain m where "n = Suc m" by (cases n) auto
  with 3 show ?case by (simp only: scan_value_atom)
next
  case (4 s)
  then obtain m where "n = Suc m" by (cases n) auto
  with 4 show ?case by (simp only: scan_value_string json_plain.simps)
next
  case (5 xs)
  then obtain m where n: "n = Suc m" and m: "items_fuel xs \<le> m" by (cases n) auto
  show ?case
  proof (cases "xs = []")
    case True
    with n show ?thesis by (simp add: skip_ws_start)
  next
    case False
    then obtain c r where cr: "json_items xs = c # r" "\<not> is_ws c" "c \<noteq> 93"
      using json_items_start by blast
    from "5.IH" [OF False _ m, of rest] "5.prems"(1)
    have "scan_items m (json_items xs @ 93 # rest) = Some (xs, rest)" by simp
    then have "scan_items m (c # r @ 93 # rest) = Some (xs, rest)" by (simp add: cr(1))
    with n cr show ?thesis by (simp add: skip_ws_start)
  qed
next
  case (6 xs)
  then show ?case by simp
next
  case (7 kvs)
  then obtain m where n: "n = Suc m" and m: "members_fuel kvs \<le> m" by (cases n) auto
  from "7.prems"(1) have d: "dict_of kvs = kvs" by (simp add: dict_of_distinct)
  show ?case
  proof (cases "kvs = []")
    case True
    with n show ?thesis by (simp add: skip_ws_start)
  next
    case False
    then obtain r where r: "json_members kvs = 34 # r"
      using json_members_start by blast
    from "7.IH" [OF False _ m, of rest] "7.prems"(1)
    have "scan_members m (json_members kvs @ 125 # rest) = Some (kvs, rest)" by simp
    then have "scan_members m (34 # r @ 125 # rest) = Some (kvs, rest)" by (simp add: r)
    with n r d show ?thesis by (simp add: skip_ws_start)
  qed
next
  case 8
  then show ?case by simp
next
  case (9 x)
  then obtain m where n: "n = Suc m" and m: "json_fuel x \<le> m" by (cases n) auto
  from "9.IH" [OF _ m, of "93 # rest"] "9.prems"(2)
  have "scan_value m (json_text x @ 93 # rest) = Some (x, 93 # rest)" by simp
  with n show ?case by (simp add: skip_ws_start)
next
  case (10 x y xs)
  then obtain m where n: "n = Suc m" and m: "json_fuel x \<le> m" "items_fuel (y # xs) \<le> m"
    by (cases n) auto
  obtain c r where cr: "json_items (y # xs) = c # r" "\<not> is_ws c"
    using json_items_start [of "y # xs"] by blast
  from "10.IH"(1) [OF _ m(1), of "44 # 32 # json_items (y # xs) @ 93 # rest"] "10.prems"(2)
  have 1: "scan_value m (json_text x @ 44 # 32 # json_items (y # xs) @ 93 # rest)
            = Some (x, 44 # 32 # json_items (y # xs) @ 93 # rest)" by simp
  from "10.IH"(2) [OF _ _ m(2), of rest] "10.prems"(2)
  have "scan_items m (json_items (y # xs) @ 93 # rest) = Some (y # xs, rest)" by simp
  then have 2: "scan_items m (skip_ws (c # r @ 93 # rest)) = Some (y # xs, rest)"
    using cr by (simp add: skip_ws_start)
  have "json_items (x # y # xs) @ 93 # rest
          = json_text x @ 44 # 32 # json_items (y # xs) @ 93 # rest" by simp
  with n 1 2 cr(1) show ?case by (simp add: skip_ws_start del: json_items.simps)
next
  case 11
  then show ?case by simp
next
  case (12 k v)
  then obtain m where n: "n = Suc m" and m: "json_fuel v \<le> m" by (cases n) auto
  obtain c r where cr: "json_text v = c # r" "\<not> is_ws c"
    using json_text_start [of v] by blast
  from "12.prems"(2) have k: "plain_str k" by simp
  from "12.IH" [OF _ m, of "125 # rest"] "12.prems"(2)
  have "scan_value m (json_text v @ 125 # rest) = Some (v, 125 # rest)" by simp
  then have 1: "scan_value m (skip_ws (c # r @ 125 # rest)) = Some (v, 125 # rest)"
    using cr by (simp add: skip_ws_start)
  have "json_members [(k, v)] @ 125 # rest
          = 34 # concat (map json_escape_char k) @ 34 # 58 # 32 # c # r @ 125 # rest"
    by (simp add: json_string_def cr(1))
  with n 1 scan_string_roundtrip [OF k, of "58 # 32 # c # r @ 125 # rest"]
  show ?case by (simp add: skip_ws_start del: json_members.simps)
next
  case (13 k v kv kvs)
  then obtain m where n: "n = Suc m" and m: "json_fuel v \<le> m" "members_fuel (kv # kvs) \<le> m"
    by (cases n) auto
  obtain c r where cr: "json_text v = c # r" "\<not> is_ws c"
    using json_text_start [of v] by blast
  obtain r' where r': "json_members (kv # kvs) = 34 # r'"
    using json_members_start [of "kv # kvs"] by blast
  from "13.prems"(2) have k: "plain_str k" by simp
  from "13.IH"(1) [OF _ m(1), of "44 # 32 # json_members (kv # kvs) @ 125 # rest"] "13.prems"(2)
  have "scan_value m (json_text v @ 44 # 32 # json_members (kv # kvs) @ 125 # rest)
          = Some (v, 44 # 32 # json_members (kv # kvs) @ 125 # rest)" by simp
  then have 1: "scan_value m (skip_ws (c # r @ 44 # 32 # 34 # r' @ 125 # rest))
          = Some (v, 44 # 32 # 34 # r' @ 125 # rest)"
    using cr r' by (simp add: skip_ws_start)
  from "13.IH"(2) [OF _ _ m(2), of rest] "13.prems"(2)
  have "scan_members m (json_members (kv # kvs) @ 125 # rest) = Some (kv # kvs, rest)" by simp
  then have 2: "scan_members m (skip_ws (34 # r' @ 125 # rest)) = Some (kv # kvs, rest)"
    using r' by (simp add: skip_ws_start)
  have "json_members ((k, v) # kv # kvs) @ 125 # rest
          = 34 # concat (map json_escape_char k) @ 34 # 58 # 32 # c # r
            @ 44 # 32 # 34 # r' @ 125 # rest"
    by (simp add: json_string_def cr(1) r')
  with n 1 2
    scan_string_roundtrip [OF k, of "58 # 32 # c # r @ 44 # 32 # 34 # r' @ 125 # rest"]
  show ?case by (simp add: skip_ws_start del: json_members.simps)
qed

lemma length_show_int: "Suc 0 \<le> length (show_int i)"
  using show_int_start [of i] by auto

lemma fuel_bound:
  "json_fuel v \<le> 2 * length (json_text v)"
  "items_fuel xs \<le> 2 * length (json_items xs) + 1"
  "members_fuel kvs \<le> 2 * length (json_members kvs) + 1"
proof (induction v and xs and kvs rule: json_text_json_items_json_members.induct)
  case (3 i)
  from length_show_int [of i] show ?case by simp
qed (auto simp: ascii_def json_string_def)

lemma json_parse_json_text:
  assumes "json_plain v"
  shows "json_parse (json_text v) = Some v"
proof -
  obtain c r where cr: "json_text v = c # r" "\<not> is_ws c"
    using json_text_start [of v] by blast
  then have ws: "skip_ws (json_text v) = json_text v" by (simp add: skip_ws_start)
  have "json_fuel v \<le> 2 * length (json_text v) + 2" using fuel_bound(1) [of v] by simp
  from scan_roundtrip(1) [OF assms this, of "[]"]
  have "scan_value (2 * length (json_text v) + 2) (json_text v) = Some (v, [])" by simp
  with ws show ?thesis by (simp add: json_parse_def)
qed

lemma json_text_tuple: "json_text (JTuple xs) = json_text (JList xs)"
  by simp

section \<open>Properties of the resume helpers\<close>

lemma demo_dumps [simp]:
  "json_dumps demo_lib (checkpoint demo_rows (JInt 2)) = Inr (demo_text 2)"
  "json_dumps demo_lib (checkpoint demo_rows (JInt 1)) = Inr (demo_text 1)"
  by (simp_all add: demo_lib_def checkpoint_def)

lemma demo_loads [simp]:
  "json_loads demo_lib (demo_text 2) = Inr (checkpoint demo_rows (JInt 2))"
  "json_loads demo_lib (demo_text 1) = Inr (checkpoint demo_rows (JInt 1))"
  by (simp_all add: demo_lib_def demo_text_def)

lemma demo_open [simp]: "open_write demo_lib p = None" "open_read demo_lib p = None"
  by (simp_all add: demo_lib_def)

lemma demo_loads_broken [simp]:
  "json_loads demo_lib demo_broken_text = Inl (Exn JSONDecodeError (ascii ''Expecting value''))"
  by (simp add: demo_lib_def demo_text_def demo_broken_text_def ascii_def)



text \<open>
  Claim C10. \<open>load_resume_point\<close> never raises: it always returns a value, and when the
  file is absent, cannot be opened, or holds text that \<open>json.load\<close> rejects, the value
  is \<open>None\<close>, the same in the three cases.
\<close>

theorem load_resume_point_never_raises:
  "(\<exists>doc. load_resume_point lib files timestamp = Inr doc)
   \<and> (files (resume_path timestamp) = None \<longrightarrow>
        load_resume_point lib files timestamp = Inr JNull)
   \<and> (open_read lib (resume_path timestamp) \<noteq> None \<longrightarrow>
        load_resume_point lib files timestamp = Inr JNull)
   \<and> (\<forall>text e. files (resume_path timestamp) = Some text \<and> json_loads lib text = Inl e \<longrightarrow>
        load_resume_point lib files timestamp = Inr JNull)"
  by (auto simp: load_resume_point_def load_resume_try_def Let_def
           split: sum.splits option.splits)

theorem load_resume_point_never_raises_witness:
  "load_resume_point demo_lib Map.empty demo_run_id = Inr JNull
   \<and> load_resume_point demo_lib [resume_path demo_run_id \<mapsto> demo_broken_text] demo_run_id
       = Inr JNull
   \<and> load_resume_point (demo_lib\<lparr>open_read := \<lambda>p. Some (Exn OSError (ascii ''denied''))\<rparr>)
        demo_files1 demo_run_id = Inr JNull"
proof -
  have absent: "Map.empty (resume_path demo_run_id) = (None :: pystr option)" by simp
  have broken: "[resume_path demo_run_id \<mapsto> demo_broken_text] (resume_path demo_run_id)
                  = Some demo_broken_text
      \<and> json_loads demo_lib demo_broken_text
          = Inl (Exn JSONDecodeError (ascii ''Expecting value''))"
    by simp
  have denied: "open_read (demo_lib\<lparr>open_read := \<lambda>p. Some (Exn OSError (ascii ''denied''))\<rparr>)
                  (resume_path demo_run_id) \<noteq> None"
    by simp
  show ?thesis
    using absent broken denied
      load_resume_point_never_raises [of demo_lib Map.empty demo_run_id]
      load_resume_point_never_raises
        [of demo_lib "[resume_path demo_run_id \<mapsto> demo_broken_text]" demo_run_id]
      load_resume_point_never_raises
        [of "demo_lib\<lparr>open_read := \<lambda>p. Some (Exn OSError (ascii ''denied''))\<rparr>"
            demo_files1 demo_run_id]
    by blast
qed

section \<open>Properties of the campaign run\<close>

lemma start_campaign_frame:
  "start_campaign lib net files (Inr df) sender_email sender_password subject custom_html cta_text cta_url
     = (files,
        \<lparr>attempts = zip (iterrows (normalise_columns lib df))
                      (map snd (submit_all net sender_email sender_password
                         (iterrows (normalise_columns lib df)) subject custom_html cta_text cta_url)),
         outcome = aggregate (map fst (submit_all net sender_email sender_password
                         (iterrows (normalise_columns lib df)) subject custom_html cta_text cta_url))
                     (0, 0)\<rparr>)"
  by (simp add: start_campaign_def Let_def)

lemma length_submit_all [simp]:
  "length (submit_all net sender_email sender_password rows subject custom_html cta_text cta_url)
     = length rows"
  by (simp add: submit_all_def)

lemma map_of_iterrows:
  assumes "k \<notin> set (columns df)" and "r \<in> set (iterrows df)"
  shows "map_of r k = None"
proof -
  from assms(2) obtain cs where "r = zip (columns df) cs" by (auto simp: iterrows_def)
  with assms(1) show ?thesis
    by (cases "map_of r k") (auto dest!: map_of_SomeD set_zip_leftD)
qed

lemma submit_all_without_email:
  assumes "\<forall>r\<in>set rows. map_of r (ascii ''email'') = None"
  shows "\<forall>fut\<in>set (submit_all net sender_email sender_password rows subject custom_html
                        cta_text cta_url). sent_to (snd fut) = [] \<and> (\<exists>e. fst fut = Inl e)"
proof
  fix fut
  assume "fut \<in> set (submit_all net sender_email sender_password rows subject custom_html
                        cta_text cta_url)"
  then obtain i r where r: "r \<in> set rows"
    and fut: "fut = send_email (net i) sender_email sender_password r subject custom_html
                      cta_text cta_url"
    by (auto simp: submit_all_def enumerate_eq_zip dest: set_zip_rightD)
  from assms r have "map_of r (ascii ''email'') = None" by blast
  from send_email_without_email [OF this, of "net i"] fut
  show "sent_to (snd fut) = [] \<and> (\<exists>e. fst fut = Inl e)" by (metis fst_conv snd_conv)
qed

text \<open>
  The markers in the two result texts, and the sum of the counters of a completed run when
  every result text holds exactly one of them.
\<close>

lemma marker_facts:
  "py_in [0x2705] delivered_text" "\<not> py_in [0x274C] delivered_text"
  "py_in [0x274C] (failed_text e)"
  "py_in [0x2705] (failed_text e) \<longleftrightarrow> py_in [0x2705] (exn_str e)"
  by (auto simp: py_in_single delivered_text_def failed_text_def ascii_def)

lemma aggregate_exactly_one:
  assumes "aggregate futs (d, f) = Inr (d', f')"
    and "\<forall>em res. Inr (em, res) \<in> set futs \<longrightarrow> py_in [0x2705] res \<noteq> py_in [0x274C] res"
  shows "d' + f' = d + f + int (length futs)"
  using assms
proof (induction futs "(d, f)" arbitrary: d f rule: aggregate.induct)
  case (1 delivered failed)
  then show ?case by simp
next
  case (2 e futures delivered failed)
  then show ?case by simp
next
  case (3 em result futures delivered failed)
  from "3.prems"(2) have one: "py_in [0x2705] result \<noteq> py_in [0x274C] result" by simp
  from "3.prems"(2) have rest: "\<forall>em res. Inr (em, res) \<in> set futures \<longrightarrow>
      py_in [0x2705] res \<noteq> py_in [0x274C] res" by simp
  from "3.prems"(1) have "aggregate futures
       (delivered + of_bool (py_in [0x2705] result), failed + of_bool (py_in [0x274C] result))
        = Inr (d', f')" by simp
  from "3.hyps" [OF this rest] one show ?case by (auto simp: of_bool_def)
qed

lemmas frame_eval =
  normalise_columns_def iterrows_def demo_lib_def ascii_lower_def strip_spaces_def
  rename_column_def ascii_def

lemma demo_frames_rows:
  "iterrows (normalise_columns demo_lib frame_without_email) = [row_without_email]"
  "iterrows (normalise_columns demo_lib frame_refused)
     = [[(ascii ''email'', PyStr ([0x2705] @ ascii ''@example.com'')),
         (ascii ''full_name'', PyStr (ascii ''Sam''))]]"
  "iterrows (normalise_columns demo_lib demo_frame)
     = [[(ascii ''email'', PyStr (ascii ''a@x.org'')), (ascii ''full_name'', PyStr (ascii ''Ann''))],
        [(ascii ''email'', PyStr (ascii ''b@x.org'')), (ascii ''full_name'', PyStr (ascii ''Bob''))],
        [(ascii ''email'', PyStr (ascii ''c@x.org'')), (ascii ''full_name'', PyStr (ascii ''Cy''))]]"
  by (simp_all add: frame_eval frame_without_email_def frame_refused_def demo_frame_def
        row_without_email_def)

text \<open>
  Claim C1 against the code: the two counters test for the markers anywhere in the result
  text, and the text of a failure ends with the exception's own text. A run over one
  recipient whose address the server refuses, the address holding \<open>U+2705\<close>, completes
  with \<open>delivered = 1\<close> and \<open>failed = 1\<close>: the recipient is counted in both, and the
  sum is 2 for a list of 1.
\<close>

theorem start_campaign_counts_failure_twice:
  "start_campaign demo_lib (\<lambda>i. transport_refusing) Map.empty (Inr frame_refused)
      demo_sender demo_password (PyStr demo_subject) (PyStr demo_template)
      (PyStr (ascii ''Book'')) (PyStr demo_cta_url)
     = (Map.empty,
        \<lparr>attempts = [([(ascii ''email'', PyStr ([0x2705] @ ascii ''@example.com'')),
                       (ascii ''full_name'', PyStr (ascii ''Sam''))],
                      [Connected, TlsStarted, LoggedIn])],
         outcome = Inr (1, 1)\<rparr>)
   \<and> length (cells frame_refused) = 1"
proof -
  have "py_in [0x2705] (failed_text recipients_refused)"
    and "py_in [0x274C] (failed_text recipients_refused)"
    by (simp_all add: failed_text_def recipients_refused_def quoted_def ascii_def)
  moreover have "length (cells frame_refused) = 1" by (simp add: frame_refused_def)
  ultimately show ?thesis
    by (simp add: start_campaign_frame demo_frames_rows submit_all_def send_email_demo_refused)
qed






end
